theory Spec2Isabelle
  imports Complex_Main "HOL-Library.Log_Nat"
begin

section \<open>JavaScript numbers\<close>

text \<open>
  The calculator computes on JavaScript numbers. A \<open>jsnum\<close> is a finite number, one of
  the two infinities, or not-a-number. The special values follow the ECMAScript
  rules: \<open>NaN\<close> propagates through arithmetic, compares false with everything, and a
  division by zero returns an infinity or \<open>NaN\<close> instead of raising. The negative zero
  is identified with zero (a division by zero takes the sign of its dividend alone).

  The operations \<open>jadd\<close>, \<open>jsub\<close>, \<open>jmul\<close>, \<open>jdiv\<close> and \<open>Math_pow\<close> return the exact result on
  finite values. The operations \<open>dadd\<close>, \<open>dsub\<close>, \<open>dmul\<close>, \<open>ddiv\<close> and \<open>dpow\<close> further below
  round it to a double, as the machine does after every operation. The amortisation
  path (the principal handed to the amortisation formula, the formula itself and
  the sum of two of its payments) is computed with the rounding operations, because
  the program computes it in two ways whose results are compared. The other
  formulas are computed exactly.
\<close>

datatype jsnum = Num real | PosInf | NegInf | NaN

fun isFinite :: "jsnum \<Rightarrow> bool" where
  "isFinite (Num x) = True"
| "isFinite PosInf = False"
| "isFinite NegInf = False"
| "isFinite NaN = False"

fun jneg :: "jsnum \<Rightarrow> jsnum" where
  "jneg (Num x) = Num (- x)"
| "jneg PosInf = NegInf"
| "jneg NegInf = PosInf"
| "jneg NaN = NaN"

fun jadd :: "jsnum \<Rightarrow> jsnum \<Rightarrow> jsnum" where
  "jadd (Num x) (Num y) = Num (x + y)"
| "jadd (Num x) PosInf = PosInf"
| "jadd (Num x) NegInf = NegInf"
| "jadd PosInf (Num y) = PosInf"
| "jadd PosInf PosInf = PosInf"
| "jadd PosInf NegInf = NaN"
| "jadd NegInf (Num y) = NegInf"
| "jadd NegInf PosInf = NaN"
| "jadd NegInf NegInf = NegInf"
| "jadd NaN b = NaN"
| "jadd a NaN = NaN"

definition jsub :: "jsnum \<Rightarrow> jsnum \<Rightarrow> jsnum" where
  "jsub a b = jadd a (jneg b)"

fun jmul :: "jsnum \<Rightarrow> jsnum \<Rightarrow> jsnum" where
  "jmul (Num x) (Num y) = Num (x * y)"
| "jmul (Num x) PosInf = (if x = 0 then NaN else if 0 < x then PosInf else NegInf)"
| "jmul (Num x) NegInf = (if x = 0 then NaN else if 0 < x then NegInf else PosInf)"
| "jmul PosInf (Num y) = (if y = 0 then NaN else if 0 < y then PosInf else NegInf)"
| "jmul NegInf (Num y) = (if y = 0 then NaN else if 0 < y then NegInf else PosInf)"
| "jmul PosInf PosInf = PosInf"
| "jmul PosInf NegInf = NegInf"
| "jmul NegInf PosInf = NegInf"
| "jmul NegInf NegInf = PosInf"
| "jmul NaN b = NaN"
| "jmul a NaN = NaN"

fun jdiv :: "jsnum \<Rightarrow> jsnum \<Rightarrow> jsnum" where
  "jdiv (Num x) (Num y) =
     (if y = 0 then (if x = 0 then NaN else if 0 < x then PosInf else NegInf)
      else Num (x / y))"
| "jdiv (Num x) PosInf = Num 0"
| "jdiv (Num x) NegInf = Num 0"
| "jdiv PosInf (Num y) = (if 0 \<le> y then PosInf else NegInf)"
| "jdiv NegInf (Num y) = (if 0 \<le> y then NegInf else PosInf)"
| "jdiv PosInf PosInf = NaN"
| "jdiv PosInf NegInf = NaN"
| "jdiv NegInf PosInf = NaN"
| "jdiv NegInf NegInf = NaN"
| "jdiv NaN b = NaN"
| "jdiv a NaN = NaN"

text \<open>The relational operators \<open><\<close>, \<open>>\<close>, \<open><=\<close>, \<open>>=\<close>: false as soon as an operand is \<open>NaN\<close>.\<close>

fun jlt :: "jsnum \<Rightarrow> jsnum \<Rightarrow> bool" where
  "jlt (Num x) (Num y) = (x < y)"
| "jlt (Num x) PosInf = True"
| "jlt (Num x) NegInf = False"
| "jlt PosInf b = False"
| "jlt NegInf (Num y) = True"
| "jlt NegInf PosInf = True"
| "jlt NegInf NegInf = False"
| "jlt NaN b = False"
| "jlt a NaN = False"

definition jgt :: "jsnum \<Rightarrow> jsnum \<Rightarrow> bool" where
  "jgt a b = jlt b a"

definition jle :: "jsnum \<Rightarrow> jsnum \<Rightarrow> bool" where
  "jle a b = (a \<noteq> NaN \<and> b \<noteq> NaN \<and> (a = b \<or> jlt a b))"

definition jge :: "jsnum \<Rightarrow> jsnum \<Rightarrow> bool" where
  "jge a b = jle b a"

subsection \<open>The Math object\<close>

definition Math_min :: "jsnum \<Rightarrow> jsnum \<Rightarrow> jsnum" where
  "Math_min a b = (if a = NaN \<or> b = NaN then NaN else if jlt b a then b else a)"

definition Math_max :: "jsnum \<Rightarrow> jsnum \<Rightarrow> jsnum" where
  "Math_max a b = (if a = NaN \<or> b = NaN then NaN else if jlt a b then b else a)"

fun Math_abs :: "jsnum \<Rightarrow> jsnum" where
  "Math_abs (Num x) = Num \<bar>x\<bar>"
| "Math_abs PosInf = PosInf"
| "Math_abs NegInf = PosInf"
| "Math_abs NaN = NaN"

text \<open>\<open>Math.round\<close> rounds to the nearest integer, a tie towards plus infinity.\<close>

fun Math_round :: "jsnum \<Rightarrow> jsnum" where
  "Math_round (Num x) = Num (of_int \<lfloor>x + 1 / 2\<rfloor>)"
| "Math_round PosInf = PosInf"
| "Math_round NegInf = NegInf"
| "Math_round NaN = NaN"

text \<open>
  \<open>Math.pow\<close>, by the cases of the language definition: a \<open>NaN\<close> exponent first, then
  a zero exponent (the result is 1 for every base, \<open>NaN\<close> included), then the base.
\<close>

definition isInteger :: "real \<Rightarrow> bool" where
  "isInteger e = (of_int \<lfloor>e\<rfloor> = e)"

definition oddInteger :: "real \<Rightarrow> bool" where
  "oddInteger e = (isInteger e \<and> odd \<lfloor>e\<rfloor>)"

definition Math_pow :: "jsnum \<Rightarrow> jsnum \<Rightarrow> jsnum" where
  "Math_pow base exponent =
     (case exponent of
        NaN \<Rightarrow> NaN
      | Num e \<Rightarrow>
          if e = 0 then Num 1
          else (case base of
                  NaN \<Rightarrow> NaN
                | PosInf \<Rightarrow> if 0 < e then PosInf else Num 0
                | NegInf \<Rightarrow> if 0 < e then (if oddInteger e then NegInf else PosInf) else Num 0
                | Num b \<Rightarrow>
                    if b = 0 then (if 0 < e then Num 0 else PosInf)
                    else if isInteger e then Num (b powi \<lfloor>e\<rfloor>)
                    else if b < 0 then NaN
                    else Num (b powr e))
      | PosInf \<Rightarrow>
          (case base of
             NaN \<Rightarrow> NaN
           | PosInf \<Rightarrow> PosInf
           | NegInf \<Rightarrow> PosInf
           | Num b \<Rightarrow> if 1 < \<bar>b\<bar> then PosInf else if \<bar>b\<bar> = 1 then NaN else Num 0)
      | NegInf \<Rightarrow>
          (case base of
             NaN \<Rightarrow> NaN
           | PosInf \<Rightarrow> Num 0
           | NegInf \<Rightarrow> Num 0
           | Num b \<Rightarrow> if 1 < \<bar>b\<bar> then Num 0 else if \<bar>b\<bar> = 1 then NaN else PosInf))"

subsection \<open>Rounding to doubles\<close>

text \<open>
  A double has a significand of 53 bits. \<open>toDouble\<close> rounds a real to the nearest such
  number, a tie to the one with an even significand. The exponent range is not
  bounded here: overflow to infinity and gradual underflow are outside the model.
\<close>

text \<open>The nearest integer, a tie to the even one.\<close>

definition roundHalfEven :: "real \<Rightarrow> int" where
  "roundHalfEven y =
     (let n = \<lfloor>y\<rfloor>; r = y - of_int n
      in if r < 1 / 2 then n
         else if 1 / 2 < r then n + 1
         else if even n then n else n + 1)"

text \<open>The binary exponent of a number other than 0: the \<open>e\<close> with \<open>2^e \<le> |x| < 2^(e+1)\<close>.\<close>

definition exponentOf :: "real \<Rightarrow> int" where
  "exponentOf x =
     (if 1 \<le> \<bar>x\<bar> then bitlen \<lfloor>\<bar>x\<bar>\<rfloor> - 1 else - bitlen (\<lceil>1 / \<bar>x\<bar>\<rceil> - 1))"

definition toDouble :: "real \<Rightarrow> real" where
  "toDouble x =
     (if x = 0 then 0
      else (let ulp = 2 powi (exponentOf x - 52)
            in of_int (roundHalfEven (x / ulp)) * ulp))"

fun roundNum :: "jsnum \<Rightarrow> jsnum" where
  "roundNum (Num x) = Num (toDouble x)"
| "roundNum PosInf = PosInf"
| "roundNum NegInf = NegInf"
| "roundNum NaN = NaN"

text \<open>
  The arithmetic of the machine: the exact result, rounded. \<open>Math.pow\<close> is taken as
  correctly rounded too; the language asks only for an approximation.
\<close>

definition dadd :: "jsnum \<Rightarrow> jsnum \<Rightarrow> jsnum" where
  "dadd a b = roundNum (jadd a b)"

definition dsub :: "jsnum \<Rightarrow> jsnum \<Rightarrow> jsnum" where
  "dsub a b = roundNum (jsub a b)"

definition dmul :: "jsnum \<Rightarrow> jsnum \<Rightarrow> jsnum" where
  "dmul a b = roundNum (jmul a b)"

definition ddiv :: "jsnum \<Rightarrow> jsnum \<Rightarrow> jsnum" where
  "ddiv a b = roundNum (jdiv a b)"

definition dpow :: "jsnum \<Rightarrow> jsnum \<Rightarrow> jsnum" where
  "dpow base exponent = roundNum (Math_pow base exponent)"

text \<open>Reading an array element: out of range gives \<open>undefined\<close>, which is \<open>NaN\<close> in arithmetic.\<close>

definition at_index :: "jsnum list \<Rightarrow> nat \<Rightarrow> jsnum" where
  "at_index xs i = (if i < length xs then xs ! i else NaN)"

section \<open>Parsing the form's strings\<close>

text \<open>
  A string is a list of 8-bit code units. \<open>parseInt\<close> with no radix skips leading white
  space, reads a sign, switches to radix 16 after a \<open>0x\<close> prefix, and converts the
  longest prefix of digits; with no digit to read the result is \<open>NaN\<close>. The value of
  the digits is exact here, however many there are.
\<close>

definition isWhiteSpace :: "char \<Rightarrow> bool" where
  "isWhiteSpace c = (c \<in> set [CHR 0x09, CHR 0x0A, CHR 0x0B, CHR 0x0C, CHR 0x0D, CHR 0x20, CHR 0xA0])"

definition digitValue :: "char \<Rightarrow> nat option" where
  "digitValue = map_of
     [(CHR ''0'', 0), (CHR ''1'', 1), (CHR ''2'', 2), (CHR ''3'', 3), (CHR ''4'', 4),
      (CHR ''5'', 5), (CHR ''6'', 6), (CHR ''7'', 7), (CHR ''8'', 8), (CHR ''9'', 9),
      (CHR ''a'', 10), (CHR ''b'', 11), (CHR ''c'', 12), (CHR ''d'', 13), (CHR ''e'', 14),
      (CHR ''f'', 15), (CHR ''A'', 10), (CHR ''B'', 11), (CHR ''C'', 12), (CHR ''D'', 13),
      (CHR ''E'', 14), (CHR ''F'', 15)]"

definition isRadixDigit :: "nat \<Rightarrow> char \<Rightarrow> bool" where
  "isRadixDigit R c = (case digitValue c of None \<Rightarrow> False | Some d \<Rightarrow> d < R)"

definition mathInt :: "nat \<Rightarrow> string \<Rightarrow> nat" where
  "mathInt R Z =
     foldl (\<lambda>acc c. acc * R + (case digitValue c of None \<Rightarrow> 0 | Some d \<Rightarrow> d)) 0 Z"

definition parseInt :: "string \<Rightarrow> jsnum" where
  "parseInt inputString =
     (let S = dropWhile isWhiteSpace inputString;
          negative = (S \<noteq> [] \<and> hd S = CHR ''-'');
          S1 = (if S \<noteq> [] \<and> (hd S = CHR ''+'' \<or> hd S = CHR ''-'') then tl S else S);
          hex = (take 2 S1 = ''0x'' \<or> take 2 S1 = ''0X'');
          R = (if hex then 16 else 10);
          S2 = (if hex then drop 2 S1 else S1);
          Z = takeWhile (isRadixDigit R) S2
      in if Z = [] then NaN
         else if negative then Num (- real (mathInt R Z))
         else Num (real (mathInt R Z)))"

text \<open>\<open>s.replace(/[^0-9]/g, '')\<close>: keep the decimal digits of \<open>s\<close>.\<close>

definition stripNonDigits :: "string \<Rightarrow> string" where
  "stripNonDigits s = filter (isRadixDigit 10) s"

section \<open>Amortisation, projection, NPV and IRR\<close>

text \<open>
  The functions of the source that take numbers only. They stand before the data
  model because their parameters carry the names of its fields. The first parameter
  of \<open>calculateAnnualDebtService\<close> is \<open>principal\<close> in the source; every operation of that
  function rounds to a double.
\<close>

definition calculateAnnualDebtService :: "jsnum \<Rightarrow> jsnum \<Rightarrow> jsnum \<Rightarrow> jsnum" where
  "calculateAnnualDebtService princ rate years =
     (let monthlyRate = ddiv rate (Num 1200);
          numberOfPayments = dmul years (Num 12);
          monthlyPayment =
            ddiv (dmul princ
                    (dmul monthlyRate (dpow (dadd (Num 1) monthlyRate) numberOfPayments)))
                 (dsub (dpow (dadd (Num 1) monthlyRate) numberOfPayments) (Num 1))
      in dmul monthlyPayment (Num 12))"

text \<open>
  The projection loop \<open>for (let year = 0; year < projectedYears; year++)\<close>: its state is
  the EBITDA grown so far and the cash flows pushed so far.
\<close>

function projectLoop ::
  "nat \<Rightarrow> jsnum list \<Rightarrow> jsnum \<Rightarrow> jsnum \<Rightarrow> nat \<Rightarrow> jsnum \<Rightarrow> jsnum list \<Rightarrow> jsnum list" where
  "projectLoop projectedYears growthRates totalDebtService ownerSalary year currentEbitda cashFlows =
     (if year < projectedYears then
        (if 0 < year then
           (let currentEbitda' =
                  jmul currentEbitda (jadd (Num 1) (at_index growthRates (year - 1)));
                freeCashFlow = jsub (jsub currentEbitda' totalDebtService) ownerSalary
            in projectLoop projectedYears growthRates totalDebtService ownerSalary (Suc year)
                 currentEbitda' (cashFlows @ [Math_round freeCashFlow]))
         else projectLoop projectedYears growthRates totalDebtService ownerSalary (Suc year)
                currentEbitda cashFlows)
      else cashFlows)"
  by pat_completeness auto
termination
  by (relation "measure (\<lambda>(projectedYears, _, _, _, year, _, _). projectedYears - year)") auto

declare projectLoop.simps [simp del]

text \<open>\<open>cashFlows.reduce((npv, cashFlow, year) => ..., 0)\<close>: a left fold that also counts the index.\<close>

fun npvReduce :: "jsnum \<Rightarrow> nat \<Rightarrow> jsnum \<Rightarrow> jsnum list \<Rightarrow> jsnum" where
  "npvReduce discountRate year npv [] = npv"
| "npvReduce discountRate year npv (cashFlow # rest) =
     npvReduce discountRate (Suc year)
       (jadd npv (jdiv cashFlow (Math_pow (jadd (Num 1) discountRate) (Num (real year))))) rest"

definition calculateNPV :: "jsnum list \<Rightarrow> jsnum \<Rightarrow> jsnum" where
  "calculateNPV cashFlows discountRate = npvReduce discountRate 0 (Num 0) cashFlows"

definition calculateIRR :: "jsnum list \<Rightarrow> jsnum" where
  "calculateIRR cashFlows =
     (let totalInvestment = Math_abs (at_index cashFlows 0);
          averageReturn =
            jdiv (foldl (\<lambda>sum cf. jadd sum cf) (Num 0) (drop 1 cashFlows))
                 (Num (real (length cashFlows) - 1))
      in jmul (jdiv averageReturn totalInvestment) (Num 100))"

section \<open>The data model\<close>

text \<open>The form's values: every field is the text the user typed.\<close>

record FormValues =
  askingPrice :: string
  revenue :: string
  ebitda :: string
  ownerSalary :: string
  recurringRevenue :: string
  topCustomerRevenue :: string
  yearsInBusiness :: string
  downPayment :: string
  sellerNote :: string
  interestRate :: string
  loanTerm :: string
  industry :: string

text \<open>
  The computed metrics. The last five fields are optional in the interface
  (\<open>revenue?: string\<close>), hence options.
\<close>

record CalculationResults =
  ebitdaMultiple :: jsnum
  revenueMultiple :: jsnum
  priceToEarnings :: jsnum
  workingCapitalRatio :: jsnum
  debtServiceCoverageRatio :: jsnum
  returnOnInvestment :: jsnum
  paybackPeriod :: jsnum
  riskScore :: jsnum
  growthPotential :: jsnum
  marketPositionScore :: jsnum
  competitiveThreat :: jsnum
  projectedCashFlows :: "jsnum list"
  netPresentValue :: jsnum
  internalRateOfReturn :: jsnum
  totalDebtService :: jsnum
  bankLoan :: jsnum
  sellerNote :: jsnum
  revenue :: "string option"
  recurringRevenue :: "string option"
  topCustomerRevenue :: "string option"
  yearsInBusiness :: "string option"
  industry :: "string option"

datatype Recommendation = StrongBuy | Buy | Neutral | Caution | Pass

text \<open>
  The four lists of findings are filled one after the other by \<open>analyzeDeal\<close> before the
  recommendation is known, so they form a record of their own that \<open>DealAnalysis\<close>
  extends.
\<close>

record Findings =
  strengths :: "string list"
  weaknesses :: "string list"
  opportunities :: "string list"
  threats :: "string list"

record DealAnalysis = Findings +
  recommendation :: Recommendation
  color :: string

definition initialValues :: FormValues where
  "initialValues =
     \<lparr> askingPrice = ''2,500,000'',
       FormValues.revenue = ''3,000,000'',
       ebitda = ''450,000'',
       ownerSalary = ''150,000'',
       FormValues.recurringRevenue = ''900,000'',
       FormValues.topCustomerRevenue = ''300,000'',
       FormValues.yearsInBusiness = ''15'',
       downPayment = ''5'',
       FormValues.sellerNote = ''5'',
       interestRate = ''10.5'',
       loanTerm = ''10'',
       FormValues.industry = ''services'' \<rparr>"

section \<open>The metrics engine\<close>

definition calculateRiskScore :: "FormValues \<Rightarrow> jsnum" where
  "calculateRiskScore values =
     (let score = Num 100;
          score =
            (if jgt (parseInt (stripNonDigits (FormValues.revenue values))) (Num 2000000)
             then jsub score
                    (jmul (jsub (parseInt (stripNonDigits (FormValues.revenue values))) (Num 2000000))
                       (Num 1.5))
             else score);
          score =
            (if jgt (jdiv (parseInt (stripNonDigits (FormValues.ebitda values)))
                       (parseInt (stripNonDigits (FormValues.askingPrice values)))) (Num 0.3)
             then jsub score (Num 10) else score);
          score =
            (if FormValues.industry values = ''tech'' then jadd score (Num 10)
             else if FormValues.industry values = ''retail'' then jadd score (Num 5)
             else if FormValues.industry values = ''manufacturing'' then jsub score (Num 10)
             else score);
          score = jsub score
                    (jmul (parseInt (stripNonDigits (FormValues.recurringRevenue values))) (Num 0.5));
          score = jsub score
                    (Math_min (jmul (parseInt (stripNonDigits (FormValues.askingPrice values))) (Num 2)) (Num 20))
      in Math_max (Num 0) (Math_min (Num 100) score))"

definition calculateGrowthPotential :: "FormValues \<Rightarrow> jsnum" where
  "calculateGrowthPotential values =
     (let historicalWeight = Num 0.4;
          industryWeight = Num 0.3;
          marketPositionWeight = Num 0.3;
          marketScore =
            (if FormValues.industry values = ''tech'' then Num 10
             else if FormValues.industry values = ''retail'' then Num 7.5
             else if FormValues.industry values = ''manufacturing'' then Num 5
             else Num 0)
      in jadd
           (jadd (jmul (parseInt (stripNonDigits (FormValues.recurringRevenue values))) historicalWeight)
                 (jmul (parseInt (stripNonDigits (FormValues.recurringRevenue values))) industryWeight))
           (jmul marketScore marketPositionWeight))"

definition calculateMarketScore :: "FormValues \<Rightarrow> jsnum" where
  "calculateMarketScore values =
     (let score = Num 0;
          score =
            (if FormValues.industry values = ''tech'' then jadd score (Num 40)
             else if FormValues.industry values = ''retail'' then jadd score (Num 30)
             else if FormValues.industry values = ''manufacturing'' then jadd score (Num 20)
             else score);
          score = jadd score
                    (Math_min (jmul (parseInt (stripNonDigits (FormValues.recurringRevenue values))) (Num 2))
                       (Num 30));
          score = jsub score
                    (Math_min (jmul (parseInt (stripNonDigits (FormValues.askingPrice values))) (Num 2)) (Num 20))
      in Math_max (Num 0) (Math_min (Num 100) score))"

definition calculateCompetitiveThreat :: "FormValues \<Rightarrow> jsnum" where
  "calculateCompetitiveThreat values =
     (let threat = Num 0;
          threat = jadd threat (jmul (parseInt (stripNonDigits (FormValues.askingPrice values))) (Num 5));
          threat =
            (if FormValues.industry values = ''tech'' then jadd threat (Num 10)
             else if FormValues.industry values = ''retail'' then jadd threat (Num 20)
             else if FormValues.industry values = ''manufacturing'' then jadd threat (Num 30)
             else threat);
          threat = jadd threat
                     (jmul (parseInt (stripNonDigits (FormValues.recurringRevenue values))) (Num 2))
      in Math_min (Num 100) threat)"

definition calculateProjectedCashFlows :: "FormValues \<Rightarrow> jsnum list" where
  "calculateProjectedCashFlows values =
     (let projectedYears = 5;
          cashFlows = [];
          askingPrice = parseInt (stripNonDigits (FormValues.askingPrice values));
          downPaymentPercent = jdiv (parseInt (FormValues.downPayment values)) (Num 100);
          sellerNotePercent = jdiv (parseInt (FormValues.sellerNote values)) (Num 100);
          interestRate = parseInt (FormValues.interestRate values);
          loanTerm = parseInt (FormValues.loanTerm values);
          ebitda = parseInt (stripNonDigits (FormValues.ebitda values));
          ownerSalary = parseInt (stripNonDigits (FormValues.ownerSalary values));
          downPayment = jmul askingPrice downPaymentPercent;
          cashFlows = cashFlows @ [jneg downPayment];
          sellerNote = jmul askingPrice sellerNotePercent;
          bankLoan = jsub (jsub askingPrice downPayment) sellerNote;
          totalDebtService =
            calculateAnnualDebtService (dadd bankLoan sellerNote) interestRate loanTerm;
          growthRates = [Num 0.15, Num 0.12, Num 0.10, Num 0.08, Num 0.06]
      in projectLoop projectedYears growthRates totalDebtService ownerSalary 0 ebitda cashFlows)"

definition calculateMetrics :: "FormValues \<Rightarrow> CalculationResults" where
  "calculateMetrics values =
     (let askingPrice = parseInt (stripNonDigits (FormValues.askingPrice values));
          revenue = parseInt (stripNonDigits (FormValues.revenue values));
          ebitda = parseInt (stripNonDigits (FormValues.ebitda values));
          downPaymentPercent = jdiv (parseInt (FormValues.downPayment values)) (Num 100);
          sellerNotePercent = jdiv (parseInt (FormValues.sellerNote values)) (Num 100);
          interestRate = parseInt (FormValues.interestRate values);
          loanTerm = parseInt (FormValues.loanTerm values);
          downPayment = jmul askingPrice downPaymentPercent;
          sellerNote = jmul askingPrice sellerNotePercent;
          bankLoan = jsub (jsub askingPrice downPayment) sellerNote;
          bankDebtService = calculateAnnualDebtService bankLoan interestRate loanTerm;
          sellerDebtService = calculateAnnualDebtService sellerNote interestRate loanTerm;
          totalDebtService = dadd bankDebtService sellerDebtService;
          ebitdaMultiple = jdiv askingPrice ebitda;
          revenueMultiple = jdiv askingPrice revenue;
          priceToEarnings = jdiv askingPrice (jmul ebitda (Num 0.7));
          debtServiceCoverageRatio = jdiv ebitda totalDebtService;
          returnOnInvestment = jmul (jdiv ebitda askingPrice) (Num 100);
          paybackPeriod = jdiv askingPrice ebitda;
          riskScore = calculateRiskScore values;
          growthPotential = calculateGrowthPotential values;
          marketPositionScore = calculateMarketScore values;
          competitiveThreat = calculateCompetitiveThreat values;
          projectedCashFlows = calculateProjectedCashFlows values;
          netPresentValue = calculateNPV projectedCashFlows (Num 0.15);
          internalRateOfReturn = calculateIRR projectedCashFlows
      in \<lparr> ebitdaMultiple = ebitdaMultiple,
           revenueMultiple = revenueMultiple,
           priceToEarnings = priceToEarnings,
           workingCapitalRatio = Num 0,
           debtServiceCoverageRatio = debtServiceCoverageRatio,
           returnOnInvestment = returnOnInvestment,
           paybackPeriod = paybackPeriod,
           riskScore = riskScore,
           growthPotential = growthPotential,
           marketPositionScore = marketPositionScore,
           competitiveThreat = competitiveThreat,
           projectedCashFlows = projectedCashFlows,
           netPresentValue = netPresentValue,
           internalRateOfReturn = internalRateOfReturn,
           totalDebtService = totalDebtService,
           bankLoan = bankLoan,
           sellerNote = sellerNote,
           revenue = Some (FormValues.revenue values),
           recurringRevenue = Some (FormValues.recurringRevenue values),
           topCustomerRevenue = Some (FormValues.topCustomerRevenue values),
           yearsInBusiness = Some (FormValues.yearsInBusiness values),
           industry = Some (FormValues.industry values) \<rparr>)"

section \<open>The deal evaluator\<close>

text \<open>
  The composite score. The two counts are array lengths and every adjustment is a
  small integer, so the score is computed on integers.
\<close>

definition calculateDealScore :: "CalculationResults \<Rightarrow> nat \<Rightarrow> nat \<Rightarrow> int" where
  "calculateDealScore metrics strengthCount weaknessCount =
     (let score = 70;
          score =
            (if jge (debtServiceCoverageRatio metrics) (Num 2) then score + 10
             else if jge (debtServiceCoverageRatio metrics) (Num 1.5) then score + 5
             else if jlt (debtServiceCoverageRatio metrics) (Num 1.25) then score - 10
             else score);
          score =
            (if jle (ebitdaMultiple metrics) (Num 4) then score + 10
             else if jge (ebitdaMultiple metrics) (Num 7) then score - 10
             else score);
          score = score + int strengthCount * 3;
          score = score - int weaknessCount * 3
      in min 100 (max 0 score))"

text \<open>
  The findings print numbers with \<open>toFixed\<close> and with template strings. What these print
  depends on the binary representation of the number, so the evaluator takes the
  two printing functions as a parameter; \<open>decimalFormat\<close> below is the instance that
  prints the exact value in decimal.
\<close>

record NumberFormat =
  toFixed :: "nat \<Rightarrow> jsnum \<Rightarrow> string"
  toString :: "jsnum \<Rightarrow> string"

text \<open>\<open>a || b\<close> on an optional string: \<open>undefined\<close> and the empty string are falsy.\<close>

definition orElse :: "string option \<Rightarrow> string \<Rightarrow> string" where
  "orElse a b = (case a of None \<Rightarrow> b | Some s \<Rightarrow> if s = [] then b else s)"

text \<open>\<open>array.push(x)\<close> on each of the four lists.\<close>

definition pushStrength :: "string \<Rightarrow> Findings \<Rightarrow> Findings" where
  "pushStrength x f = f\<lparr>strengths := strengths f @ [x]\<rparr>"

definition pushWeakness :: "string \<Rightarrow> Findings \<Rightarrow> Findings" where
  "pushWeakness x f = f\<lparr>weaknesses := weaknesses f @ [x]\<rparr>"

definition pushOpportunity :: "string \<Rightarrow> Findings \<Rightarrow> Findings" where
  "pushOpportunity x f = f\<lparr>opportunities := opportunities f @ [x]\<rparr>"

definition pushThreat :: "string \<Rightarrow> Findings \<Rightarrow> Findings" where
  "pushThreat x f = f\<lparr>threats := threats f @ [x]\<rparr>"

text \<open>
  The body of \<open>analyzeDeal\<close> is a sequence of blocks, each pushing onto the lists. Every
  block is a function from the lists before it to the lists after it, in the order
  of the source.
\<close>

text \<open>Block "Analyze EBITDA Multiple".\<close>

definition analyzeEbitdaMultiple :: "CalculationResults \<Rightarrow> Findings \<Rightarrow> Findings" where
  "analyzeEbitdaMultiple metrics f =
     (if jle (ebitdaMultiple metrics) (Num 4)
      then pushStrength ''Below market valuation (EBITDA multiple < 4x)'' f
      else if jge (ebitdaMultiple metrics) (Num 7)
      then pushWeakness ''Premium valuation (EBITDA multiple > 7x)'' f
      else f)"

text \<open>Block "Always add some areas of improvement/opportunity".\<close>

definition addAreasOfImprovement :: "Findings \<Rightarrow> Findings" where
  "addAreasOfImprovement f =
     pushWeakness ''Marketing strategy needs enhancement''
       (pushWeakness ''Technology systems could be modernized'' f)"

text \<open>The debt coverage block.\<close>

definition analyzeDebtCoverage :: "NumberFormat \<Rightarrow> CalculationResults \<Rightarrow> Findings \<Rightarrow> Findings" where
  "analyzeDebtCoverage fmt metrics f =
     (if jge (debtServiceCoverageRatio metrics) (Num 1.5)
      then pushStrength (''Strong debt coverage ('' @
             toFixed fmt 2 (debtServiceCoverageRatio metrics) @ ''x DSCR)'') f
      else if jlt (debtServiceCoverageRatio metrics) (Num 1.25)
      then pushWeakness (''Tight debt coverage ('' @
             toFixed fmt 2 (debtServiceCoverageRatio metrics) @ ''x DSCR)'') f
      else f)"

text \<open>The constant \<open>totalRevenue\<close>, read by the next two blocks.\<close>

definition totalRevenue :: "CalculationResults \<Rightarrow> jsnum" where
  "totalRevenue metrics =
     parseInt (orElse (map_option stripNonDigits (CalculationResults.revenue metrics)) ''1'')"

text \<open>Block "Analyze recurring revenue".\<close>

definition analyzeRecurringRevenue :: "NumberFormat \<Rightarrow> CalculationResults \<Rightarrow> Findings \<Rightarrow> Findings" where
  "analyzeRecurringRevenue fmt metrics f =
     (let recurringRevenue =
            parseInt (orElse (map_option stripNonDigits
              (CalculationResults.recurringRevenue metrics)) ''0'');
          recurringRevenuePercent = jmul (jdiv recurringRevenue (totalRevenue metrics)) (Num 100)
      in if jge recurringRevenuePercent (Num 30)
         then pushStrength (''High recurring revenue ('' @
                toFixed fmt 0 recurringRevenuePercent @ ''%)'') f
         else pushOpportunity ''Opportunity to increase service contracts''
                (pushWeakness (''Low recurring revenue ('' @
                   toFixed fmt 0 recurringRevenuePercent @ ''%)'') f))"

text \<open>Block "Customer concentration".\<close>

definition analyzeCustomerConcentration ::
  "NumberFormat \<Rightarrow> CalculationResults \<Rightarrow> Findings \<Rightarrow> Findings" where
  "analyzeCustomerConcentration fmt metrics f =
     (let topCustomerRevenue =
            parseInt (orElse (map_option stripNonDigits
              (CalculationResults.topCustomerRevenue metrics)) ''0'');
          customerConcentration = jmul (jdiv topCustomerRevenue (totalRevenue metrics)) (Num 100)
      in if jgt customerConcentration (Num 20)
         then pushWeakness ''Customer diversification needed''
                (pushThreat (''High customer concentration ('' @
                   toFixed fmt 0 customerConcentration @ ''% from top customer)'') f)
         else pushStrength ''Well-diversified customer base'' f)"

text \<open>Block "Business maturity".\<close>

definition analyzeBusinessMaturity ::
  "NumberFormat \<Rightarrow> CalculationResults \<Rightarrow> Findings \<Rightarrow> Findings" where
  "analyzeBusinessMaturity fmt metrics f =
     (let yearsInBusiness = parseInt (orElse (CalculationResults.yearsInBusiness metrics) ''0'')
      in if jge yearsInBusiness (Num 10)
         then pushStrength (''Established business ('' @
                toString fmt yearsInBusiness @ '' years operating)'') f
         else pushOpportunity ''Room for operational improvements''
                (pushWeakness (''Limited operating history ('' @
                   toString fmt yearsInBusiness @ '' years)'') f))"

text \<open>Block "Industry specific".\<close>

definition analyzeIndustry :: "CalculationResults \<Rightarrow> Findings \<Rightarrow> Findings" where
  "analyzeIndustry metrics f =
     (if CalculationResults.industry metrics = Some ''services''
      then pushWeakness ''Seasonal revenue fluctuations''
             (pushThreat ''Equipment supply chain risks''
               (pushThreat ''Labor market challenges''
                 (pushOpportunity ''Energy efficiency upgrade opportunities''
                   (pushOpportunity ''Growing demand for HVAC services'' f))))
      else f)"

text \<open>The whole function: the blocks in order on four empty lists, then block "Determine recommendation".\<close>

definition analyzeDeal :: "NumberFormat \<Rightarrow> CalculationResults \<Rightarrow> DealAnalysis" where
  "analyzeDeal fmt metrics =
     (let f = \<lparr> strengths = [], weaknesses = [], opportunities = [], threats = [] \<rparr>;
          f = analyzeEbitdaMultiple metrics f;
          f = addAreasOfImprovement f;
          f = analyzeDebtCoverage fmt metrics f;
          f = analyzeRecurringRevenue fmt metrics f;
          f = analyzeCustomerConcentration fmt metrics f;
          f = analyzeBusinessMaturity fmt metrics f;
          f = analyzeIndustry metrics f;
          score = calculateDealScore metrics (length (strengths f)) (length (weaknesses f));
          verdict =
            (if 85 \<le> score then (StrongBuy, ''text-green-500'')
             else if 70 \<le> score then (Buy, ''text-green-400'')
             else if 50 \<le> score then (Neutral, ''text-yellow-500'')
             else if 30 \<le> score then (Caution, ''text-orange-500'')
             else (Pass, ''text-red-500''))
      in \<lparr> strengths = strengths f, weaknesses = weaknesses f,
           opportunities = opportunities f, threats = threats f,
           recommendation = fst verdict, color = snd verdict \<rparr>)"

section \<open>Reference formulas\<close>

text \<open>
  The formulas that the theorems below compare the code with, written from the
  description of each quantity, and names for intermediate values of the code that
  the theorems speak about.
\<close>

text \<open>The sum of a sequence of numbers: the first entry plus the sum of the rest.\<close>

fun jsum :: "jsnum list \<Rightarrow> jsnum" where
  "jsum [] = Num 0"
| "jsum (x # xs) = jadd x (jsum xs)"

text \<open>Clamping into the interval from 0 to 100.\<close>

definition clampScore :: "jsnum \<Rightarrow> jsnum" where
  "clampScore x = Math_max (Num 0) (Math_min (Num 100) x)"

definition inScoreRange :: "jsnum \<Rightarrow> bool" where
  "inScoreRange x = (jle (Num 0) x \<and> jle x (Num 100))"

text \<open>
  The risk score as one expression: 100, less the revenue penalty, less the margin
  penalty, plus the industry adjustment, less half the recurring revenue, less the
  competition penalty, clamped.
\<close>

definition industryRiskAdjustment :: "string \<Rightarrow> jsnum" where
  "industryRiskAdjustment ind =
     (if ind = ''tech'' then Num 10
      else if ind = ''retail'' then Num 5
      else if ind = ''manufacturing'' then Num (- 10)
      else Num 0)"

definition riskScoreSpec :: "FormValues \<Rightarrow> jsnum" where
  "riskScoreSpec values =
     (let price = parseInt (stripNonDigits (FormValues.askingPrice values));
          rev = parseInt (stripNonDigits (FormValues.revenue values));
          earnings = parseInt (stripNonDigits (FormValues.ebitda values));
          recurring = parseInt (stripNonDigits (FormValues.recurringRevenue values))
      in clampScore
           (jsub
              (jsub
                 (jadd
                    (jsub
                       (jsub (Num 100)
                          (if jgt rev (Num 2000000)
                           then jmul (Num 1.5) (jsub rev (Num 2000000)) else Num 0))
                       (if jgt (jdiv earnings price) (Num 0.3) then Num 10 else Num 0))
                    (industryRiskAdjustment (FormValues.industry values)))
                 (jmul (Num 0.5) recurring))
              (Math_min (jmul (Num 2) price) (Num 20))))"

text \<open>
  Names for three locals of the code: \<open>calculateMetrics\<close> and
  \<open>calculateProjectedCashFlows\<close> both compute \<open>downPayment\<close>, \<open>sellerNote\<close> and
  \<open>bankLoan\<close>, by these expressions.
\<close>

definition downPaymentAmount :: "FormValues \<Rightarrow> jsnum" where
  "downPaymentAmount values =
     jmul (parseInt (stripNonDigits (FormValues.askingPrice values)))
          (jdiv (parseInt (FormValues.downPayment values)) (Num 100))"

definition sellerNoteAmount :: "FormValues \<Rightarrow> jsnum" where
  "sellerNoteAmount values =
     jmul (parseInt (stripNonDigits (FormValues.askingPrice values)))
          (jdiv (parseInt (FormValues.sellerNote values)) (Num 100))"

definition bankLoanAmount :: "FormValues \<Rightarrow> jsnum" where
  "bankLoanAmount values =
     jsub (jsub (parseInt (stripNonDigits (FormValues.askingPrice values))) (downPaymentAmount values))
          (sellerNoteAmount values)"

text \<open>\<open>pct\<close> percent of an amount: the amount times the fraction \<open>pct/100\<close>.\<close>

definition percentOf :: "jsnum \<Rightarrow> jsnum \<Rightarrow> jsnum" where
  "percentOf pct amount = jmul amount (jdiv pct (Num 100))"

text \<open>
  The composite score as one sum: 70, the coverage adjustments, the valuation
  adjustments, 3 per strength, minus 3 per weakness, clamped to the interval from 0
  to 100; and the recommendation tier of a score.
\<close>

definition dealScoreSpec :: "jsnum \<Rightarrow> jsnum \<Rightarrow> nat \<Rightarrow> nat \<Rightarrow> int" where
  "dealScoreSpec dscr multiple s w =
     max 0 (min 100
       (70 + (if jge dscr (Num 2) then 10 else 0)
           + (if jge dscr (Num 1.5) \<and> jlt dscr (Num 2) then 5 else 0)
           - (if jlt dscr (Num 1.25) then 10 else 0)
           + (if jle multiple (Num 4) then 10 else 0)
           - (if jge multiple (Num 7) then 10 else 0)
           + 3 * int s - 3 * int w))"

definition recommendationTier :: "int \<Rightarrow> Recommendation" where
  "recommendationTier score =
     (if 85 \<le> score then StrongBuy
      else if 70 \<le> score then Buy
      else if 50 \<le> score then Neutral
      else if 30 \<le> score then Caution
      else Pass)"

text \<open>The number of findings of an analysis, over the four lists.\<close>

definition findingCount :: "DealAnalysis \<Rightarrow> nat" where
  "findingCount a =
     length (strengths a) + length (weaknesses a) + length (opportunities a) + length (threats a)"

text \<open>The lists as they stand when the industry block is reached.\<close>

definition findingsBeforeIndustry :: "NumberFormat \<Rightarrow> CalculationResults \<Rightarrow> Findings" where
  "findingsBeforeIndustry fmt metrics =
     analyzeBusinessMaturity fmt metrics
       (analyzeCustomerConcentration fmt metrics
         (analyzeRecurringRevenue fmt metrics
           (analyzeDebtCoverage fmt metrics
             (addAreasOfImprovement
               (analyzeEbitdaMultiple metrics
                 \<lparr> strengths = [], weaknesses = [], opportunities = [], threats = [] \<rparr>)))))"

text \<open>
  A number format that prints the exact value in decimal: \<open>toFixed\<close> rounds half away
  from zero to the given number of decimals, \<open>toString\<close> prints the integer part (the
  evaluator prints only results of \<open>parseInt\<close> with it). JavaScript prints the double
  and switches to exponent notation from \<open>10^21\<close> on, so this is one possible value of
  the format parameter; no theorem depends on which.
\<close>

definition digitChar :: "nat \<Rightarrow> char" where
  "digitChar d = ''0123456789'' ! d"

fun natToString :: "nat \<Rightarrow> string" where
  "natToString n = (if n < 10 then [digitChar n] else natToString (n div 10) @ [digitChar (n mod 10)])"

declare natToString.simps [simp del]

definition decimalToFixed :: "nat \<Rightarrow> jsnum \<Rightarrow> string" where
  "decimalToFixed fd x =
     (case x of
        NaN \<Rightarrow> ''NaN''
      | PosInf \<Rightarrow> ''Infinity''
      | NegInf \<Rightarrow> ''-Infinity''
      | Num r \<Rightarrow>
          (let n = nat \<lfloor>\<bar>r\<bar> * 10 ^ fd + 1 / 2\<rfloor>;
               m = natToString n;
               m = replicate (fd + 1 - length m) (CHR ''0'') @ m;
               k = length m
           in (if r < 0 then ''-'' else '''') @
              (if fd = 0 then m else take (k - fd) m @ ''.'' @ drop (k - fd) m)))"

definition decimalToString :: "jsnum \<Rightarrow> string" where
  "decimalToString x =
     (case x of
        NaN \<Rightarrow> ''NaN''
      | PosInf \<Rightarrow> ''Infinity''
      | NegInf \<Rightarrow> ''-Infinity''
      | Num r \<Rightarrow> (if r < 0 then ''-'' else '''') @ natToString (nat \<lfloor>\<bar>r\<bar>\<rfloor>))"

definition decimalFormat :: NumberFormat where
  "decimalFormat = \<lparr> toFixed = decimalToFixed, toString = decimalToString \<rparr>"

section \<open>Arithmetic of the number model\<close>

lemma jadd_assoc: "jadd (jadd a b) c = jadd a (jadd b c)"
  by (cases a; cases b; cases c) simp_all

lemma jadd_commute: "jadd a b = jadd b a"
  by (cases a; cases b) simp_all

lemma jadd_zero_left: "jadd (Num 0) a = a"
  by (cases a) simp_all

lemma jadd_zero_right: "jadd a (Num 0) = a"
  by (cases a) simp_all

lemma jdiv_one: "jdiv a (Num 1) = a"
  by (cases a) simp_all

lemma Math_pow_one: "Math_pow (Num 1) (Num (real year)) = Num 1"
  by (simp add: Math_pow_def isInteger_def)

lemma jsub_zero: "jsub a (Num 0) = a"
  by (cases a) (simp_all add: jsub_def)

lemma jmul_commute: "jmul a b = jmul b a"
  by (cases a; cases b) simp_all

lemma jadd_neg_Num: "jadd a (Num (- x)) = jsub a (Num x)"
  by (simp add: jsub_def)

lemma jneg_jneg: "jneg (jneg a) = a"
  by (cases a) simp_all

lemma jmul_percent: "jmul a (jdiv p (Num 100)) = percentOf p a"
  by (simp add: percentOf_def)

lemma isFinite_ops:
  "isFinite a \<Longrightarrow> isFinite b \<Longrightarrow> isFinite (jadd a b)"
  "isFinite a \<Longrightarrow> isFinite b \<Longrightarrow> isFinite (jsub a b)"
  "isFinite a \<Longrightarrow> isFinite b \<Longrightarrow> isFinite (jmul a b)"
  "isFinite a \<Longrightarrow> isFinite b \<Longrightarrow> isFinite (Math_min a b)"
  by (cases a; cases b; simp add: jsub_def Math_min_def)+

lemma NaN_right:
  "jadd a NaN = NaN" "jmul a NaN = NaN" "jdiv a NaN = NaN"
  by (cases a; simp)+

lemma percent_NaN_or_finite:
  assumes "a = NaN \<or> isFinite a" and "b = NaN \<or> isFinite b"
  shows "jmul a (jdiv b (Num 100)) = NaN \<or> isFinite (jmul a (jdiv b (Num 100)))"
  using assms by (cases a; cases b) simp_all

lemma foldl_jadd: "foldl (\<lambda>sum cf. jadd sum cf) a xs = jadd a (jsum xs)"
  by (induction xs arbitrary: a) (simp_all add: jadd_zero_right jadd_assoc)

lemma jmul_hundred_finite: "isFinite (jmul a (Num 100)) \<Longrightarrow> isFinite a"
  by (cases a) simp_all

lemma jdiv_zero_not_finite: "\<not> isFinite (jdiv a (Num 0))"
  by (cases a) simp_all

lemma Math_abs_jneg: "Math_abs (jneg a) = Math_abs a"
  by (cases a) simp_all

section \<open>Rounding to doubles\<close>

text \<open>
  The rounding is to a nearest integer multiple of the unit in the last place, so it
  changes a number by at most the fraction \<open>2^-53\<close> of its magnitude. A number of
  known binary exponent is rounded by \<open>toDouble_eval\<close>.
\<close>

lemma roundHalfEven_error: "\<bar>of_int (roundHalfEven y) - y\<bar> \<le> 1 / 2"
  unfolding roundHalfEven_def Let_def by (auto simp: abs_if) linarith+

lemma exponentOf_bounds:
  assumes "x \<noteq> 0"
  shows "2 powi exponentOf x \<le> \<bar>x\<bar> \<and> \<bar>x\<bar> < 2 powi (exponentOf x + 1)"
proof -
  show ?thesis
  proof (cases "1 \<le> \<bar>x\<bar>")
    case True
    let ?n = "\<lfloor>\<bar>x\<bar>\<rfloor>"
    have n: "0 < ?n" using True by linarith
    from bitlen_bounds [OF n] have lo: "2 ^ nat (bitlen ?n - 1) \<le> ?n" and hi: "?n < 2 ^ nat (bitlen ?n)"
      by blast+
    have b: "1 \<le> bitlen ?n" using n bitlen_nonneg [of ?n] bitlen_eq_zero_iff [of ?n] by linarith
    have e: "exponentOf x = bitlen ?n - 1" using True by (simp add: exponentOf_def)
    have "(2::real) powi (bitlen ?n - 1) = 2 ^ nat (bitlen ?n - 1)"
      using b by (simp add: power_int_def)
    also have "\<dots> = of_int (2 ^ nat (bitlen ?n - 1))" by simp
    also have "\<dots> \<le> of_int ?n" using lo by (simp only: of_int_le_iff)
    also have "\<dots> \<le> \<bar>x\<bar>" by simp
    finally have A: "2 powi exponentOf x \<le> \<bar>x\<bar>" by (simp add: e)
    have "\<bar>x\<bar> < of_int (?n + 1)" by linarith
    also have "\<dots> \<le> of_int (2 ^ nat (bitlen ?n))"
    proof -
      have "?n + 1 \<le> 2 ^ nat (bitlen ?n)" using hi by linarith
      then show ?thesis by (simp only: of_int_le_iff)
    qed
    also have "\<dots> = (2::real) powi (bitlen ?n)" using b by (simp add: power_int_def)
    finally have "\<bar>x\<bar> < 2 powi (exponentOf x + 1)" by (simp add: e)
    with A show ?thesis by blast
  next
    case False
    let ?y = "1 / \<bar>x\<bar>"
    let ?c = "\<lceil>?y\<rceil>"
    have x: "0 < \<bar>x\<bar>" "\<bar>x\<bar> < 1" using assms False by simp_all
    then have y: "1 < ?y" by simp
    then have c: "0 < ?c - 1" by linarith
    let ?m = "bitlen (?c - 1)"
    from bitlen_bounds [OF c] have lo: "2 ^ nat (?m - 1) \<le> ?c - 1" and hi: "?c - 1 < 2 ^ nat ?m"
      by blast+
    have m: "1 \<le> ?m" using c bitlen_nonneg [of "?c - 1"] bitlen_eq_zero_iff [of "?c - 1"] by linarith
    have e: "exponentOf x = - ?m" using False by (simp add: exponentOf_def)
    have "?y \<le> of_int ?c" by simp
    also have "\<dots> \<le> of_int (2 ^ nat ?m)"
    proof -
      have "?c \<le> 2 ^ nat ?m" using hi by linarith
      then show ?thesis by (simp only: of_int_le_iff)
    qed
    also have "\<dots> = (2::real) ^ nat ?m" by simp
    finally have "?y \<le> 2 ^ nat ?m" .
    then have "1 / 2 ^ nat ?m \<le> \<bar>x\<bar>" using x by (simp add: field_simps)
    moreover have "(2::real) powi (- ?m) = 1 / 2 ^ nat ?m"
      using m by (simp add: power_int_def field_simps)
    ultimately have A: "2 powi exponentOf x \<le> \<bar>x\<bar>" by (simp add: e)
    have "(2::real) ^ nat (?m - 1) = of_int (2 ^ nat (?m - 1))" by simp
    also have "\<dots> \<le> of_int (?c - 1)" using lo by (simp only: of_int_le_iff)
    also have "\<dots> < ?y" by linarith
    finally have "(2::real) ^ nat (?m - 1) < ?y" .
    then have "\<bar>x\<bar> < 1 / 2 ^ nat (?m - 1)" using x by (simp add: field_simps)
    moreover have "(2::real) powi (- ?m + 1) = 1 / 2 ^ nat (?m - 1)"
    proof (cases "?m = 1")
      case True then show ?thesis by simp
    next
      case False
      then have "- ?m + 1 < 0" using m by linarith
      moreover have "nat (- (- ?m + 1)) = nat (?m - 1)" by simp
      ultimately show ?thesis by (simp add: power_int_def field_simps)
    qed
    ultimately have "\<bar>x\<bar> < 2 powi (exponentOf x + 1)" by (simp add: e)
    with A show ?thesis by blast
  qed
qed

lemma exponentOf_eqI:
  assumes "2 powi e \<le> \<bar>x\<bar>" and "\<bar>x\<bar> < 2 powi (e + 1)"
  shows "exponentOf x = e"
proof -
  have "(0::real) < 2 powi e" by simp
  with assms(1) have "0 < \<bar>x\<bar>" by linarith
  then have x: "x \<noteq> 0" by simp
  let ?k = "exponentOf x"
  from exponentOf_bounds [OF x] have k: "2 powi ?k \<le> \<bar>x\<bar>" "\<bar>x\<bar> < 2 powi (?k + 1)" by blast+
  have "(2::real) powi e < 2 powi (?k + 1)" using assms(1) k(2) by linarith
  then have 1: "e < ?k + 1"
    using power_int_increasing [of "?k + 1" e "2::real"] by (cases "e < ?k + 1") simp_all
  have "(2::real) powi ?k < 2 powi (e + 1)" using assms(2) k(1) by linarith
  then have 2: "?k < e + 1"
    using power_int_increasing [of "e + 1" ?k "2::real"] by (cases "?k < e + 1") simp_all
  from 1 2 show ?thesis by linarith
qed

lemma toDouble_eval:
  assumes "2 powi e \<le> \<bar>x\<bar>" and "\<bar>x\<bar> < 2 powi (e + 1)"
  shows "toDouble x = of_int (roundHalfEven (x / 2 powi (e - 52))) * 2 powi (e - 52)"
proof -
  have "(0::real) < 2 powi e" by simp
  with assms(1) have "0 < \<bar>x\<bar>" by linarith
  then have "x \<noteq> 0" by simp
  then show ?thesis by (simp add: toDouble_def Let_def exponentOf_eqI [OF assms])
qed

lemma toDouble_error: "\<bar>toDouble x - x\<bar> \<le> \<bar>x\<bar> / 2 ^ 53"
proof (cases "x = 0")
  case True
  then show ?thesis by (simp add: toDouble_def)
next
  case False
  let ?e = "exponentOf x"
  let ?u = "(2::real) powi (?e - 52)"
  have u: "0 < ?u" by simp
  have "toDouble x - x = (of_int (roundHalfEven (x / ?u)) - x / ?u) * ?u"
    using False u by (simp add: toDouble_def Let_def algebra_simps)
  then have "\<bar>toDouble x - x\<bar> = \<bar>of_int (roundHalfEven (x / ?u)) - x / ?u\<bar> * ?u"
    using u by (simp add: abs_mult)
  also have "\<dots> \<le> 1 / 2 * ?u"
    using roundHalfEven_error [of "x / ?u"] u by (intro mult_right_mono) simp_all
  also have "\<dots> = 2 powi ?e / 2 ^ 53"
    by (simp add: power_int_diff)
  also have "\<dots> \<le> \<bar>x\<bar> / 2 ^ 53"
    using exponentOf_bounds [OF False] by (intro divide_right_mono) simp_all
  finally show ?thesis .
qed

lemma toDouble_between:
  assumes "0 < lo" and "lo \<le> x" and "x \<le> hi"
  shows "lo * (1 - 1 / 2 ^ 53) \<le> toDouble x \<and> toDouble x \<le> hi * (1 + 1 / 2 ^ 53)"
proof -
  define t where "t = x / 2 ^ 53"
  have x: "0 < x" using assms(1) assms(2) by (rule less_le_trans)
  then have ax: "\<bar>x\<bar> = x" by simp
  have e: "\<bar>toDouble x - x\<bar> \<le> t"
    using toDouble_error [of x] unfolding ax t_def .
  have lo: "lo * (1 - 1 / 2 ^ 53) \<le> x * (1 - 1 / 2 ^ 53)"
    using assms(2) by (rule mult_right_mono) simp
  have hi: "x * (1 + 1 / 2 ^ 53) \<le> hi * (1 + 1 / 2 ^ 53)"
    using assms(3) by (rule mult_right_mono) simp
  have l: "x * (1 - 1 / 2 ^ 53) = x - t" and h: "x * (1 + 1 / 2 ^ 53) = x + t"
    unfolding t_def by (simp_all add: algebra_simps)
  from e have "x - t \<le> toDouble x" and "toDouble x \<le> x + t"
    by (simp_all add: abs_le_iff algebra_simps)
  with lo hi show ?thesis unfolding l h by (meson order_trans)
qed

lemma toDouble_pos:
  assumes "0 < x"
  shows "0 < toDouble x"
proof -
  have "0 < x * (1 - 1 / 2 ^ 53)" using assms by simp
  with toDouble_between [of x x x] assms show ?thesis by linarith
qed

text \<open>Bounds on a number give bounds on its rounding.\<close>

lemma toDouble_bounds:
  assumes "0 < lo" and "lo \<le> x" and "x \<le> hi"
    and "lo' \<le> lo * (1 - 1 / 2 ^ 53)" and "hi * (1 + 1 / 2 ^ 53) \<le> hi'"
  shows "lo' \<le> toDouble x \<and> toDouble x \<le> hi'"
  using toDouble_between [OF assms(1) assms(2) assms(3)] assms(4) assms(5) by linarith

lemma toDouble_linear_bounds:
  assumes "0 < P" and "0 < a" and "a * P \<le> x" and "x \<le> b * P"
    and "a' \<le> a * (1 - 1 / 2 ^ 53)" and "b * (1 + 1 / 2 ^ 53) \<le> b'"
  shows "a' * P \<le> toDouble x \<and> toDouble x \<le> b' * P"
proof -
  have pos: "0 < a * P" using assms(1) assms(2) by simp
  from toDouble_between [OF pos assms(3) assms(4)]
  have "a * P * (1 - 1 / 2 ^ 53) \<le> toDouble x" and "toDouble x \<le> b * P * (1 + 1 / 2 ^ 53)"
    by blast+
  moreover have "a' * P \<le> a * (1 - 1 / 2 ^ 53) * P"
    using assms(5) assms(1) by (intro mult_right_mono) simp_all
  moreover have "b * (1 + 1 / 2 ^ 53) * P \<le> b' * P"
    using assms(6) assms(1) by (intro mult_right_mono) simp_all
  ultimately show ?thesis by (simp add: mult.assoc mult.commute mult.left_commute)
qed

lemma scale_bounds:
  fixes P :: real
  assumes "0 < P" and "a \<le> K \<and> K \<le> b"
  shows "a * P \<le> P * K" and "P * K \<le> b * P"
  using assms by (simp_all add: mult.commute [of P] mult_right_mono)

text \<open>
  A relative error \<open>e\<close> grows by at most \<open>2 / 2^53\<close> in one rounding, and is kept by a
  multiplication or division by a constant.
\<close>

lemma toDouble_near:
  assumes "\<bar>x - y\<bar> \<le> e * \<bar>y\<bar>" and "0 \<le> e" and "e \<le> 1"
  shows "\<bar>toDouble x - y\<bar> \<le> (e + 2 / 2 ^ 53) * \<bar>y\<bar>"
proof -
  have "e * \<bar>y\<bar> \<le> 1 * \<bar>y\<bar>" using assms(3) by (intro mult_right_mono) simp_all
  with assms(1) have x: "\<bar>x\<bar> \<le> 2 * \<bar>y\<bar>" by simp
  have "\<bar>toDouble x - x\<bar> \<le> \<bar>x\<bar> / 2 ^ 53" by (rule toDouble_error)
  also have "\<dots> \<le> 2 * \<bar>y\<bar> / 2 ^ 53" using x by (intro divide_right_mono) simp_all
  finally have r: "\<bar>toDouble x - x\<bar> \<le> 2 * \<bar>y\<bar> / 2 ^ 53" .
  have "(e + 2 / 2 ^ 53) * \<bar>y\<bar> = e * \<bar>y\<bar> + 2 * \<bar>y\<bar> / 2 ^ 53"
    by (simp add: distrib_right)
  moreover have "\<bar>toDouble x - y\<bar> \<le> \<bar>toDouble x - x\<bar> + \<bar>x - y\<bar>" by simp
  ultimately show ?thesis using r assms(1) by linarith
qed

lemma near_mult:
  fixes x :: real
  assumes "\<bar>x - y\<bar> \<le> e * \<bar>y\<bar>"
  shows "\<bar>x * k - y * k\<bar> \<le> e * \<bar>y * k\<bar>"
proof -
  have "\<bar>x * k - y * k\<bar> = \<bar>x - y\<bar> * \<bar>k\<bar>"
    by (simp add: left_diff_distrib [symmetric] abs_mult)
  also have "\<dots> \<le> e * \<bar>y\<bar> * \<bar>k\<bar>" using assms by (intro mult_right_mono) simp_all
  finally show ?thesis by (simp add: abs_mult mult.assoc)
qed

section \<open>What the parser returns\<close>

lemma parseInt_cases: "parseInt s = NaN \<or> (\<exists>k::int. parseInt s = Num (of_int k))"
proof -
  have neg: "\<exists>k::int. - real n = of_int k" for n
    by (rule exI[of _ "- int n"]) simp
  have pos: "\<exists>k::int. real n = of_int k" for n
    by (rule exI[of _ "int n"]) simp
  show ?thesis
    unfolding parseInt_def Let_def by (simp add: neg pos)
qed

lemma not_digit_minus: "\<not> isRadixDigit 10 (CHR ''-'')"
  by (simp add: isRadixDigit_def digitValue_def)

lemma stripNonDigits_set: "c \<in> set (stripNonDigits s) \<Longrightarrow> isRadixDigit 10 c"
  by (simp add: stripNonDigits_def)

text \<open>A field stripped of its non-digits parses to a natural number, or to \<open>NaN\<close> when no digit is left.\<close>

lemma parseInt_stripNonDigits:
  "parseInt (stripNonDigits s) = NaN \<or> (\<exists>n::nat. parseInt (stripNonDigits s) = Num (real n))"
proof -
  let ?S = "dropWhile isWhiteSpace (stripNonDigits s)"
  have "\<not> (?S \<noteq> [] \<and> hd ?S = CHR ''-'')"
  proof
    assume a: "?S \<noteq> [] \<and> hd ?S = CHR ''-''"
    then have "hd ?S \<in> set ?S" using hd_in_set [of ?S] by blast
    then have "hd ?S \<in> set (stripNonDigits s)" by (meson set_dropWhileD)
    then have "isRadixDigit 10 (hd ?S)" by (rule stripNonDigits_set)
    with a show False by (simp add: not_digit_minus)
  qed
  then have "(?S \<noteq> [] \<and> hd ?S = CHR ''-'') = False" by blast
  then show ?thesis
    unfolding parseInt_def Let_def by (simp only: if_False) simp
qed

lemma stripped_finite:
  "parseInt (stripNonDigits s) \<noteq> NaN \<Longrightarrow> \<exists>n::nat. parseInt (stripNonDigits s) = Num (real n)"
  using parseInt_stripNonDigits [of s] by blast

text \<open>The fields of the form's initial values, parsed.\<close>

lemma parse_digits_initial:
  "parseInt (stripNonDigits ''2,500,000'') = Num 2500000"
  "parseInt (stripNonDigits ''3,000,000'') = Num 3000000"
  "parseInt (stripNonDigits ''450,000'') = Num 450000"
  "parseInt (stripNonDigits ''150,000'') = Num 150000"
  "parseInt (stripNonDigits ''900,000'') = Num 900000"
  "parseInt (stripNonDigits ''300,000'') = Num 300000"
  by (simp_all add: parseInt_def stripNonDigits_def isRadixDigit_def digitValue_def
        isWhiteSpace_def mathInt_def Let_def)

lemma parse_initial:
  "parseInt ''5'' = Num 5" "parseInt ''10.5'' = Num 10" "parseInt ''10'' = Num 10"
  "parseInt ''15'' = Num 15" "parseInt ''0'' = Num 0" "parseInt ''60'' = Num 60"
  by (simp_all add: parseInt_def isRadixDigit_def digitValue_def
        isWhiteSpace_def mathInt_def Let_def)

section \<open>Net present value\<close>

lemma npvReduce_zero: "npvReduce (Num 0) year npv cfs = jadd npv (jsum cfs)"
proof (induction cfs arbitrary: year npv)
  case Nil
  show ?case by (simp add: jadd_zero_right)
next
  case (Cons cf cfs)
  show ?case by (simp add: Cons.IH Math_pow_one jdiv_one jadd_assoc)
qed

text \<open>
  Claim C8. At discount rate 0 the net present value of any cash-flow sequence, the
  special values included, is the plain sum of its entries.
\<close>

theorem calculateNPV_rate_zero: "calculateNPV cashFlows (Num 0) = jsum cashFlows"
  by (simp add: calculateNPV_def npvReduce_zero jadd_zero_left)

section \<open>The composite score\<close>

lemma coverage_band_2: "jge d (Num 2) \<Longrightarrow> jge d (Num 1.5) \<and> \<not> jlt d (Num 2)"
  by (cases d) (auto simp add: jge_def jle_def)

lemma coverage_band_15: "jge d (Num 1.5) \<Longrightarrow> \<not> jlt d (Num 1.25) \<and> (jge d (Num 2) \<or> jlt d (Num 2))"
  by (cases d) (auto simp add: jge_def jle_def)

lemma multiple_bands: "jle m (Num 4) \<Longrightarrow> \<not> jge m (Num 7)"
  by (cases m) (auto simp add: jge_def jle_def)

lemma clamp_int: "min 100 (max 0 (x::int)) = max 0 (min 100 x)"
  by simp

lemma calculateDealScore_eq_spec:
  "calculateDealScore metrics s w =
     dealScoreSpec (debtServiceCoverageRatio metrics) (ebitdaMultiple metrics) s w"
proof -
  let ?d = "debtServiceCoverageRatio metrics" and ?m = "ebitdaMultiple metrics"
  have d: "(if jge ?d (Num 2) then 70 + 10
            else if jge ?d (Num 1.5) then 70 + 5
            else if jlt ?d (Num 1.25) then 70 - 10 else (70::int)) =
           70 + (if jge ?d (Num 2) then 10 else 0)
              + (if jge ?d (Num 1.5) \<and> jlt ?d (Num 2) then 5 else 0)
              - (if jlt ?d (Num 1.25) then 10 else 0)"
    using coverage_band_2 [of ?d] coverage_band_15 [of ?d]
    by (cases "jge ?d (Num 2)"; cases "jge ?d (Num 1.5)") auto
  have m: "(if jle ?m (Num 4) then x + 10 else if jge ?m (Num 7) then x - 10 else (x::int)) =
           x + (if jle ?m (Num 4) then 10 else 0) - (if jge ?m (Num 7) then 10 else 0)" for x
    using multiple_bands [of ?m] by (cases "jle ?m (Num 4)") simp_all
  show ?thesis
    unfolding calculateDealScore_def dealScoreSpec_def Let_def d m clamp_int
    by (simp only: mult.commute)
qed

lemma analyzeDeal_recommendation:
  "recommendation (analyzeDeal fmt metrics) =
     recommendationTier (calculateDealScore metrics
       (length (strengths (analyzeDeal fmt metrics)))
       (length (weaknesses (analyzeDeal fmt metrics))))"
  by (simp add: analyzeDeal_def Let_def recommendationTier_def)

text \<open>
  Claim C3. For every metrics record, strength count \<open>s\<close> and weakness count \<open>w\<close>, the
  composite score is the clamp to the interval from 0 to 100 of 70, plus 10 if DSCR
  is at least 2, plus 5 if it is in [1.5, 2), minus 10 if it is below 1.25, plus 10
  if the EBITDA multiple is at most 4, minus 10 if it is at least 7, plus 3s, minus
  3w; and the recommendation of the analysis is Strong Buy from 85, Buy from 70,
  Neutral from 50, Caution from 30, otherwise Pass, on the score of its strengths
  and weaknesses.
\<close>

theorem deal_score_and_recommendation:
  "calculateDealScore metrics s w =
     dealScoreSpec (debtServiceCoverageRatio metrics) (ebitdaMultiple metrics) s w \<and>
   recommendation (analyzeDeal fmt metrics) =
     recommendationTier (calculateDealScore metrics
       (length (strengths (analyzeDeal fmt metrics)))
       (length (weaknesses (analyzeDeal fmt metrics))))"
  using calculateDealScore_eq_spec [of metrics s w] analyzeDeal_recommendation [of fmt metrics]
  by (rule conjI)

text \<open>
  Claim C7. With the metrics and the weakness count fixed, a larger strength count
  never gives a smaller composite score.
\<close>

theorem calculateDealScore_mono_strengths:
  "s \<le> s' \<Longrightarrow> calculateDealScore metrics s w \<le> calculateDealScore metrics s' w"
  by (simp add: calculateDealScore_def Let_def)

theorem calculateDealScore_mono_strengths_witness:
  "(1::nat) \<le> 3 \<and>
   calculateDealScore (calculateMetrics initialValues) 1 2
     \<le> calculateDealScore (calculateMetrics initialValues) 3 2"
  using calculateDealScore_mono_strengths [of 1 3 "calculateMetrics initialValues" 2] by simp

section \<open>The risk score\<close>

lemma calculateRiskScore_eq_spec: "calculateRiskScore values = riskScoreSpec values"
  unfolding calculateRiskScore_def riskScoreSpec_def clampScore_def industryRiskAdjustment_def Let_def
  by (simp add: jsub_zero jadd_zero_right jadd_neg_Num jmul_commute)

text \<open>
  Claim C4. For every input the risk score is the clamp to the interval from 0 to 100
  of: 100, minus 1.5 times the revenue above 2,000,000 when the revenue exceeds it,
  minus 10 when EBITDA over asking price exceeds 0.3, plus the industry adjustment
  (tech +10, retail +5, manufacturing -10, otherwise 0), minus half the recurring
  revenue in dollars, minus the smaller of twice the asking price and 20.
\<close>

theorem calculateRiskScore_formula: "calculateRiskScore values = riskScoreSpec values"
  by (rule calculateRiskScore_eq_spec)

section \<open>The cash-flow projection\<close>

text \<open>
  The loop runs \<open>year\<close> from 0 to 4 and skips year 0, so it pushes four cash flows after
  the initial outflow; the fifth growth rate is never read.
\<close>

lemma projectLoop_five:
  "projectLoop 5 g t os 0 e cfs =
     (let e1 = jmul e (jadd (Num 1) (at_index g 0));
          e2 = jmul e1 (jadd (Num 1) (at_index g 1));
          e3 = jmul e2 (jadd (Num 1) (at_index g 2));
          e4 = jmul e3 (jadd (Num 1) (at_index g 3))
      in cfs @ [Math_round (jsub (jsub e1 t) os), Math_round (jsub (jsub e2 t) os),
                Math_round (jsub (jsub e3 t) os), Math_round (jsub (jsub e4 t) os)])"
proof -
  have s0: "projectLoop 5 g t os 0 e' c = projectLoop 5 g t os (Suc 0) e' c" for e' c
    by (subst projectLoop.simps) simp
  have s1: "projectLoop 5 g t os (Suc 0) e' c =
        projectLoop 5 g t os 2 (jmul e' (jadd (Num 1) (at_index g 0)))
          (c @ [Math_round (jsub (jsub (jmul e' (jadd (Num 1) (at_index g 0))) t) os)])" for e' c
    by (subst projectLoop.simps) (simp add: Let_def numeral_2_eq_2)
  have s2: "projectLoop 5 g t os 2 e' c =
        projectLoop 5 g t os 3 (jmul e' (jadd (Num 1) (at_index g 1)))
          (c @ [Math_round (jsub (jsub (jmul e' (jadd (Num 1) (at_index g 1))) t) os)])" for e' c
    by (subst projectLoop.simps) (simp add: Let_def eval_nat_numeral)
  have s3: "projectLoop 5 g t os 3 e' c =
        projectLoop 5 g t os 4 (jmul e' (jadd (Num 1) (at_index g 2)))
          (c @ [Math_round (jsub (jsub (jmul e' (jadd (Num 1) (at_index g 2))) t) os)])" for e' c
    by (subst projectLoop.simps) (simp add: Let_def eval_nat_numeral)
  have s4: "projectLoop 5 g t os 4 e' c =
        projectLoop 5 g t os 5 (jmul e' (jadd (Num 1) (at_index g 3)))
          (c @ [Math_round (jsub (jsub (jmul e' (jadd (Num 1) (at_index g 3))) t) os)])" for e' c
    by (subst projectLoop.simps) (simp add: Let_def eval_nat_numeral)
  have s5: "projectLoop 5 g t os 5 e' c = c" for e' c
    by (subst projectLoop.simps) simp
  show ?thesis
    unfolding s0 s1 s2 s3 s4 s5 Let_def by simp
qed

lemma calculateProjectedCashFlows_unfold:
  "calculateProjectedCashFlows values =
     (let service = calculateAnnualDebtService (dadd (bankLoanAmount values) (sellerNoteAmount values))
                      (parseInt (FormValues.interestRate values)) (parseInt (FormValues.loanTerm values));
          salary = parseInt (stripNonDigits (FormValues.ownerSalary values));
          e1 = jmul (parseInt (stripNonDigits (FormValues.ebitda values))) (Num 1.15);
          e2 = jmul e1 (Num 1.12);
          e3 = jmul e2 (Num 1.10);
          e4 = jmul e3 (Num 1.08)
      in [jneg (downPaymentAmount values),
          Math_round (jsub (jsub e1 service) salary), Math_round (jsub (jsub e2 service) salary),
          Math_round (jsub (jsub e3 service) salary), Math_round (jsub (jsub e4 service) salary)])"
  by (simp add: calculateProjectedCashFlows_def projectLoop_five Let_def at_index_def
        downPaymentAmount_def sellerNoteAmount_def bankLoanAmount_def)

lemma length_calculateProjectedCashFlows: "length (calculateProjectedCashFlows values) = 5"
  by (simp add: calculateProjectedCashFlows_unfold Let_def)

lemma metrics_fields:
  "bankLoan (calculateMetrics values) = bankLoanAmount values"
  "CalculationResults.sellerNote (calculateMetrics values) = sellerNoteAmount values"
  "projectedCashFlows (calculateMetrics values) = calculateProjectedCashFlows values"
  "internalRateOfReturn (calculateMetrics values) = calculateIRR (calculateProjectedCashFlows values)"
  "riskScore (calculateMetrics values) = calculateRiskScore values"
  "growthPotential (calculateMetrics values) = calculateGrowthPotential values"
  "marketPositionScore (calculateMetrics values) = calculateMarketScore values"
  "competitiveThreat (calculateMetrics values) = calculateCompetitiveThreat values"
  "totalDebtService (calculateMetrics values) =
     dadd (calculateAnnualDebtService (bankLoanAmount values)
             (parseInt (FormValues.interestRate values)) (parseInt (FormValues.loanTerm values)))
          (calculateAnnualDebtService (sellerNoteAmount values)
             (parseInt (FormValues.interestRate values)) (parseInt (FormValues.loanTerm values)))"
  by (simp_all add: calculateMetrics_def Let_def bankLoanAmount_def sellerNoteAmount_def
        downPaymentAmount_def)

lemma first_cash_flow: "at_index (calculateProjectedCashFlows values) 0 = jneg (downPaymentAmount values)"
  by (simp add: calculateProjectedCashFlows_unfold Let_def at_index_def)

text \<open>
  The debt service at the rate 10 and the term 10 of the form's initial values. The
  compound factor \<open>(1 + 10/1200)^120\<close> is too long to evaluate in binary, so every
  step of the formula is enclosed between two decimal constants, the rounding of
  the step included.
\<close>

lemma power_lower: 
  fixes d :: real
  assumes "0 \<le> d" and "d \<le> 1"
  shows "1 - real n * d \<le> (1 - d) ^ n"
  using Bernoulli_inequality [of "- d" n] assms by simp

lemma power_upper:
  fixes d :: real
  assumes "0 \<le> d" and "real n * d < 1"
  shows "(1 + d) ^ n \<le> 1 / (1 - real n * d)"
proof -
  have d1: "d \<le> 1 \<or> n = 0"
  proof (cases "n = 0")
    case False
    then have "1 \<le> real n" by simp
    then have "d \<le> real n * d" using assms(1) by (simp add: mult_le_cancel_right1)
    then show ?thesis using assms(2) by linarith
  qed simp
  show ?thesis
  proof (cases "n = 0")
    case True then show ?thesis by simp
  next
    case False
    with d1 have d: "d \<le> 1" by blast
    have "(1 + d) ^ n * (1 - real n * d) \<le> (1 + d) ^ n * (1 - d) ^ n"
      using power_lower [OF assms(1) d, of n] assms(1) by (intro mult_left_mono) simp_all
    also have "\<dots> = ((1 + d) * (1 - d)) ^ n" by (simp add: power_mult_distrib)
    also have "\<dots> = (1 - d * d) ^ n" by (simp add: algebra_simps)
    also have "\<dots> \<le> 1" using assms(1) d by (intro power_le_one) (simp_all add: mult_le_one)
    finally show ?thesis using assms(2) by (simp add: pos_le_divide_eq)
  qed
qed

lemma compound_factor_bounds:
  "2707041490 / 10 ^ 9 < (121 / 120 :: real) ^ 120"
  "(121 / 120 :: real) ^ 120 < 2707041491 / 10 ^ 9"
  by (simp_all add: field_simps)

lemma compound_factor_10_10:
  "\<exists>pw. dpow (Num (2270564812132625 / 2 ^ 51)) (Num 120) = Num pw \<and>
        27070414899 / 10 ^ 10 \<le> pw \<and> pw \<le> 27070414911 / 10 ^ 10"
proof -
  define b :: real where "b = 2270564812132625 / 2 ^ 51"
  define q :: real where "q = (121 / 120) ^ 120"
  define d :: real where "d = 1 / 10 ^ 15"
  have q: "2707041490 / 10 ^ 9 < q" "q < 2707041491 / 10 ^ 9"
    unfolding q_def by (rule compound_factor_bounds)+
  have b: "121 / 120 * (1 - d) \<le> b" "b \<le> 121 / 120 * (1 + d)"
    unfolding b_def d_def by simp_all
  have d: "0 \<le> d" "d \<le> 1" "real 120 * d < 1" unfolding d_def by simp_all
  have "q * (1 - real 120 * d) \<le> q * (1 - d) ^ 120"
    using power_lower [OF d(1) d(2), of 120] q(1) by (intro mult_left_mono) simp_all
  also have "\<dots> = (121 / 120 * (1 - d)) ^ 120"
    unfolding q_def by (simp only: power_mult_distrib)
  also have "\<dots> \<le> b ^ 120"
    using b(1) d by (intro power_mono) simp_all
  finally have lo: "q * (1 - real 120 * d) \<le> b ^ 120" .
  have "b ^ 120 \<le> (121 / 120 * (1 + d)) ^ 120"
    using b(2) by (intro power_mono) (simp_all add: b_def)
  also have "\<dots> = q * (1 + d) ^ 120"
    unfolding q_def by (simp only: power_mult_distrib)
  also have "\<dots> \<le> q * (1 / (1 - real 120 * d))"
    using power_upper [OF d(1) d(3)] q(1) by (intro mult_left_mono) simp_all
  finally have hi: "b ^ 120 \<le> q * (1 / (1 - real 120 * d))" .
  have lo': "270704148999 / 10 ^ 11 \<le> b ^ 120"
  proof -
    have "270704148999 / 10 ^ 11 \<le> 2707041490 / 10 ^ 9 * (1 - real 120 * d)"
      unfolding d_def by simp
    also have "\<dots> \<le> q * (1 - real 120 * d)"
      using q(1) d(3) by (intro mult_right_mono) simp_all
    finally show ?thesis using lo by linarith
  qed
  have hi': "b ^ 120 \<le> 270704149101 / 10 ^ 11"
  proof -
    have "q * (1 / (1 - real 120 * d)) \<le> 2707041491 / 10 ^ 9 * (1 / (1 - real 120 * d))"
      using q(2) d(3) by (intro mult_right_mono) simp_all
    also have "\<dots> \<le> 270704149101 / 10 ^ 11"
      unfolding d_def by simp
    finally show ?thesis using hi by linarith
  qed
  have pos: "(0::real) < 270704148999 / 10 ^ 11" by simp
  from toDouble_between [OF pos lo' hi']
  have r: "27070414899 / 10 ^ 10 \<le> toDouble (b ^ 120)" "toDouble (b ^ 120) \<le> 27070414911 / 10 ^ 10"
    by simp_all
  have "dpow (Num b) (Num 120) = Num (toDouble (b ^ 120))"
    by (simp add: dpow_def Math_pow_def isInteger_def b_def del: power_numeral)
  with r show ?thesis unfolding b_def by blast
qed

lemma debt_service_10_10:
  assumes P: "0 < P"
  shows "\<exists>s. calculateAnnualDebtService (Num P) (Num 10) (Num 10) = Num s \<and>
             158580884 / 10 ^ 9 * P \<le> s \<and> s \<le> 1585808845 / 10 ^ 10 * P"
proof -
  have mr: "ddiv (Num 10) (Num 1200) = Num (4803839602528529 / 2 ^ 59)"
    by (simp add: ddiv_def toDouble_eval [of "- 7"] roundHalfEven_def Let_def power_int_minus)
  have np: "dmul (Num 10) (Num 12) = Num 120"
    by (simp add: dmul_def toDouble_eval [of 6] roundHalfEven_def Let_def power_int_minus)
  have base: "dadd (Num 1) (Num (4803839602528529 / 2 ^ 59)) = Num (2270564812132625 / 2 ^ 51)"
    by (simp add: dadd_def toDouble_eval [of 0] roundHalfEven_def Let_def power_int_minus)
  obtain pw where pw: "dpow (Num (2270564812132625 / 2 ^ 51)) (Num 120) = Num pw"
    and pwl: "27070414899 / 10 ^ 10 \<le> pw" and pwh: "pw \<le> 27070414911 / 10 ^ 10"
    using compound_factor_10_10 by blast
  define K where "K = toDouble (4803839602528529 / 2 ^ 59 * pw)"
  define D where "D = toDouble (pw - 1)"
  define x1 where "x1 = toDouble (P * K)"
  define x2 where "x2 = toDouble (x1 / D)"
  define x3 where "x3 = toDouble (x2 * 12)"
  have k: "dmul (Num (4803839602528529 / 2 ^ 59)) (Num pw) = Num K"
    by (simp add: dmul_def K_def)
  have d: "dsub (Num pw) (Num 1) = Num D"
    by (simp add: dsub_def jsub_def D_def)
  have Kb: "22558679082 / 10 ^ 12 \<le> K \<and> K \<le> 22558679093 / 10 ^ 12"
    unfolding K_def
  proof (rule toDouble_bounds)
    show "(0::real) < 225586790824 / 10 ^ 13" by simp
    show "225586790824 / 10 ^ 13 \<le> 4803839602528529 / 2 ^ 59 * pw" using pwl by simp
    show "4803839602528529 / 2 ^ 59 * pw \<le> 225586790926 / 10 ^ 13" using pwh by simp
    show "22558679082 / 10 ^ 12 \<le> 225586790824 / 10 ^ 13 * (1 - 1 / 2 ^ 53 :: real)" by simp
    show "225586790926 / 10 ^ 13 * (1 + 1 / 2 ^ 53) \<le> (22558679093 / 10 ^ 12 :: real)" by simp
  qed
  have Db: "17070414898 / 10 ^ 10 \<le> D \<and> D \<le> 17070414912 / 10 ^ 10"
    unfolding D_def
  proof (rule toDouble_bounds)
    show "(0::real) < 17070414899 / 10 ^ 10" by simp
    show "17070414899 / 10 ^ 10 \<le> pw - 1" using pwl by simp
    show "pw - 1 \<le> 17070414911 / 10 ^ 10" using pwh by simp
    show "17070414898 / 10 ^ 10 \<le> 17070414899 / 10 ^ 10 * (1 - 1 / 2 ^ 53 :: real)" by simp
    show "17070414911 / 10 ^ 10 * (1 + 1 / 2 ^ 53) \<le> (17070414912 / 10 ^ 10 :: real)" by simp
  qed
  have Dpos: "0 < D"
  proof -
    have "(0::real) < 17070414898 / 10 ^ 10" by simp
    then show ?thesis using Db by (blast intro: less_le_trans)
  qed
  have x1b: "225586790819 / 10 ^ 13 * P \<le> x1 \<and> x1 \<le> 225586790931 / 10 ^ 13 * P"
    unfolding x1_def
  proof (rule toDouble_linear_bounds [OF P])
    show "(0::real) < 22558679082 / 10 ^ 12" by simp
    show "22558679082 / 10 ^ 12 * P \<le> P * K" by (rule scale_bounds [OF P Kb])
    show "P * K \<le> 22558679093 / 10 ^ 12 * P" by (rule scale_bounds [OF P Kb])
    show "225586790819 / 10 ^ 13 \<le> 22558679082 / 10 ^ 12 * (1 - 1 / 2 ^ 53 :: real)" by simp
    show "22558679093 / 10 ^ 12 * (1 + 1 / 2 ^ 53) \<le> (225586790931 / 10 ^ 13 :: real)" by simp
  qed
  have x2b: "1321507367 / 10 ^ 11 * P \<le> x2 \<and> x2 \<le> 1321507370 / 10 ^ 11 * P"
    unfolding x2_def
  proof (rule toDouble_linear_bounds [OF P])
    show "(0::real) < 13215073680 / 10 ^ 12" by simp
    have "13215073680 / 10 ^ 12 * P * D \<le> 13215073680 / 10 ^ 12 * P * (17070414912 / 10 ^ 10)"
      using Db P by (intro mult_left_mono) simp_all
    also have "\<dots> \<le> 225586790819 / 10 ^ 13 * P" using P by simp
    also have "\<dots> \<le> x1" using x1b by blast
    finally show "13215073680 / 10 ^ 12 * P \<le> x1 / D"
      using Dpos by (simp add: pos_le_divide_eq del: power_numeral)
    have "x1 \<le> 225586790931 / 10 ^ 13 * P" using x1b by blast
    also have "\<dots> \<le> 13215073698 / 10 ^ 12 * P * (17070414898 / 10 ^ 10)" using P by simp
    also have "\<dots> \<le> 13215073698 / 10 ^ 12 * P * D"
      using Db P by (intro mult_left_mono) simp_all
    finally show "x1 / D \<le> 13215073698 / 10 ^ 12 * P"
      using Dpos by (simp add: pos_divide_le_eq del: power_numeral)
    show "1321507367 / 10 ^ 11 \<le> 13215073680 / 10 ^ 12 * (1 - 1 / 2 ^ 53 :: real)" by simp
    show "13215073698 / 10 ^ 12 * (1 + 1 / 2 ^ 53) \<le> (1321507370 / 10 ^ 11 :: real)" by simp
  qed
  have x3b: "158580884 / 10 ^ 9 * P \<le> x3 \<and> x3 \<le> 1585808845 / 10 ^ 10 * P"
    unfolding x3_def
  proof (rule toDouble_linear_bounds [OF P])
    show "(0::real) < 15858088404 / 10 ^ 11" by simp
    show "15858088404 / 10 ^ 11 * P \<le> x2 * 12" using x2b by simp
    show "x2 * 12 \<le> 15858088440 / 10 ^ 11 * P" using x2b by simp
    show "158580884 / 10 ^ 9 \<le> 15858088404 / 10 ^ 11 * (1 - 1 / 2 ^ 53 :: real)" by simp
    show "15858088440 / 10 ^ 11 * (1 + 1 / 2 ^ 53) \<le> (1585808845 / 10 ^ 10 :: real)" by simp
  qed
  have Dnz: "D \<noteq> 0" using Dpos by simp
  have "calculateAnnualDebtService (Num P) (Num 10) (Num 10) = Num x3"
    unfolding calculateAnnualDebtService_def Let_def mr np base pw k d
    using Dnz by (simp add: dmul_def ddiv_def x1_def x2_def x3_def)
  with x3b show ?thesis by blast
qed

lemma principal_initial: "dadd (Num 2250000) (Num 125000) = Num 2375000"
  by (simp add: dadd_def toDouble_eval [of 21] roundHalfEven_def Let_def power_int_minus)

lemma debt_service_initial:
  "\<exists>s. calculateAnnualDebtService (Num 2375000) (Num 10) (Num 10) = Num s \<and>
       753259 / 2 < s \<and> s < 3766297 / 10"
proof -
  obtain s where s: "calculateAnnualDebtService (Num 2375000) (Num 10) (Num 10) = Num s"
    and lo: "158580884 / 10 ^ 9 * 2375000 \<le> s" and hi: "s \<le> 1585808845 / 10 ^ 10 * 2375000"
    using debt_service_10_10 [of 2375000] by auto
  have "753259 / 2 < s" using lo by simp
  moreover have "s < 3766297 / 10" using hi by simp
  ultimately show ?thesis using s by blast
qed

lemma cash_flows_initial:
  "calculateProjectedCashFlows initialValues =
     [Num (- 125000), Num (- 9130), Num 52970, Num 110930, Num 161935]"
proof -
  obtain s where s: "calculateAnnualDebtService (Num 2375000) (Num 10) (Num 10) = Num s"
    and lo: "753259 / 2 < s" and hi: "s < 3766297 / 10"
    using debt_service_initial by blast
  have f1: "\<lfloor>735001 / 2 - s\<rfloor> = - 9130" using lo hi by (simp add: floor_eq_iff)
  have f2: "\<lfloor>859201 / 2 - s\<rfloor> = 52970" using lo hi by (simp add: floor_eq_iff)
  have f3: "\<lfloor>975121 / 2 - s\<rfloor> = 110930" using lo hi by (simp add: floor_eq_iff)
  have f4: "\<lfloor>5385653 / 10 - s\<rfloor> = 161935" using lo hi by (simp add: floor_eq_iff)
  show ?thesis
    by (simp add: calculateProjectedCashFlows_unfold initialValues_def parse_digits_initial
        parse_initial Let_def downPaymentAmount_def sellerNoteAmount_def bankLoanAmount_def
        principal_initial s jsub_def f1 f2 f3 f4)
qed

text \<open>
  Claim C1. The projected cash-flow series has six entries: minus the down payment,
  then for each of the years 1 to 5 the rounded free cash flow on the EBITDA grown
  by 15, 12, 10, 8 and 6 percent in turn. On the form's initial values the code
  returns five entries: the year grown by 6 percent is missing.
\<close>

theorem calculateProjectedCashFlows_initialValues:
  "calculateProjectedCashFlows initialValues =
     [Num (- 125000), Num (- 9130), Num 52970, Num 110930, Num 161935] \<and>
   length (calculateProjectedCashFlows initialValues) \<noteq> 6"
  by (simp add: cash_flows_initial)

section \<open>The financing split\<close>

text \<open>
  Claim C5. For every input the down payment is the asking price times the down-payment
  percentage over 100, the seller note is the asking price times the seller-note
  percentage over 100, and the bank loan is the asking price less both, with no
  guard on the two percentages: at 60 percent each the bank loan is negative. For an
  asking price of 2,500,000 with 5 percent down and a 5 percent seller note the bank
  loan is 2,250,000.
\<close>

theorem financing_split:
  "jneg (at_index (projectedCashFlows (calculateMetrics values)) 0) =
     percentOf (parseInt (FormValues.downPayment values))
       (parseInt (stripNonDigits (FormValues.askingPrice values))) \<and>
   CalculationResults.sellerNote (calculateMetrics values) =
     percentOf (parseInt (FormValues.sellerNote values))
       (parseInt (stripNonDigits (FormValues.askingPrice values))) \<and>
   bankLoan (calculateMetrics values) =
     jsub (jsub (parseInt (stripNonDigits (FormValues.askingPrice values)))
             (percentOf (parseInt (FormValues.downPayment values))
                (parseInt (stripNonDigits (FormValues.askingPrice values)))))
          (percentOf (parseInt (FormValues.sellerNote values))
             (parseInt (stripNonDigits (FormValues.askingPrice values)))) \<and>
   bankLoan (calculateMetrics initialValues) = Num 2250000 \<and>
   bankLoan (calculateMetrics
     (initialValues\<lparr>FormValues.downPayment := ''60'', FormValues.sellerNote := ''60''\<rparr>)) =
     Num (- 500000)"
proof -
  have a: "bankLoan (calculateMetrics initialValues) = Num 2250000"
    by (simp add: metrics_fields bankLoanAmount_def downPaymentAmount_def sellerNoteAmount_def
          initialValues_def parse_digits_initial parse_initial jsub_def)
  have b: "bankLoan (calculateMetrics
     (initialValues\<lparr>FormValues.downPayment := ''60'', FormValues.sellerNote := ''60''\<rparr>)) =
     Num (- 500000)"
    by (simp add: metrics_fields bankLoanAmount_def downPaymentAmount_def sellerNoteAmount_def
          initialValues_def parse_digits_initial parse_initial jsub_def)
  have c: "jneg (at_index (projectedCashFlows (calculateMetrics values)) 0) =
     percentOf (parseInt (FormValues.downPayment values))
       (parseInt (stripNonDigits (FormValues.askingPrice values)))"
    by (simp add: metrics_fields first_cash_flow jneg_jneg downPaymentAmount_def jmul_percent)
  have d: "CalculationResults.sellerNote (calculateMetrics values) =
     percentOf (parseInt (FormValues.sellerNote values))
       (parseInt (stripNonDigits (FormValues.askingPrice values)))"
    by (simp add: metrics_fields sellerNoteAmount_def jmul_percent)
  have e: "bankLoan (calculateMetrics values) =
     jsub (jsub (parseInt (stripNonDigits (FormValues.askingPrice values)))
             (percentOf (parseInt (FormValues.downPayment values))
                (parseInt (stripNonDigits (FormValues.askingPrice values)))))
          (percentOf (parseInt (FormValues.sellerNote values))
             (parseInt (stripNonDigits (FormValues.askingPrice values))))"
    by (simp add: metrics_fields bankLoanAmount_def downPaymentAmount_def sellerNoteAmount_def
          jmul_percent)
  from a b c d e show ?thesis by blast
qed

section \<open>The qualitative scores\<close>

lemma clampScore_range: "isFinite x \<Longrightarrow> inScoreRange (clampScore x)"
  by (cases x) (auto simp: clampScore_def inScoreRange_def Math_min_def Math_max_def jle_def)

lemma revenue_penalty_finite:
  "isFinite (if jgt (parseInt (stripNonDigits s)) (Num 2000000)
             then jmul (Num 1.5) (jsub (parseInt (stripNonDigits s)) (Num 2000000)) else Num 0)"
  using parseInt_stripNonDigits [of s] by (auto simp: jgt_def jsub_def)

lemma industryRiskAdjustment_finite: "isFinite (industryRiskAdjustment ind)"
  by (simp add: industryRiskAdjustment_def)

lemma riskScore_range:
  assumes "parseInt (stripNonDigits (FormValues.askingPrice values)) \<noteq> NaN"
    and "parseInt (stripNonDigits (FormValues.recurringRevenue values)) \<noteq> NaN"
  shows "inScoreRange (calculateRiskScore values)"
proof -
  obtain a :: nat where a: "parseInt (stripNonDigits (FormValues.askingPrice values)) = Num (real a)"
    using stripped_finite [OF assms(1)] by blast
  obtain r :: nat where r: "parseInt (stripNonDigits (FormValues.recurringRevenue values)) = Num (real r)"
    using stripped_finite [OF assms(2)] by blast
  show ?thesis
    unfolding calculateRiskScore_eq_spec riskScoreSpec_def Let_def a r
    by (intro clampScore_range isFinite_ops revenue_penalty_finite industryRiskAdjustment_finite)
       simp_all
qed

lemma marketScore_range:
  assumes "parseInt (stripNonDigits (FormValues.askingPrice values)) \<noteq> NaN"
    and "parseInt (stripNonDigits (FormValues.recurringRevenue values)) \<noteq> NaN"
  shows "inScoreRange (calculateMarketScore values)"
proof -
  obtain a :: nat where a: "parseInt (stripNonDigits (FormValues.askingPrice values)) = Num (real a)"
    using stripped_finite [OF assms(1)] by blast
  obtain r :: nat where r: "parseInt (stripNonDigits (FormValues.recurringRevenue values)) = Num (real r)"
    using stripped_finite [OF assms(2)] by blast
  have "calculateMarketScore values = clampScore
     (jsub (jadd (if FormValues.industry values = ''tech'' then Num 40
                  else if FormValues.industry values = ''retail'' then Num 30
                  else if FormValues.industry values = ''manufacturing'' then Num 20 else Num 0)
                 (Math_min (jmul (Num (real r)) (Num 2)) (Num 30)))
           (Math_min (jmul (Num (real a)) (Num 2)) (Num 20)))"
    by (simp add: calculateMarketScore_def clampScore_def Let_def a r)
  also have "inScoreRange \<dots>"
    by (intro clampScore_range isFinite_ops) simp_all
  finally show ?thesis .
qed

lemma competitiveThreat_range:
  assumes "parseInt (stripNonDigits (FormValues.askingPrice values)) \<noteq> NaN"
    and "parseInt (stripNonDigits (FormValues.recurringRevenue values)) \<noteq> NaN"
  shows "inScoreRange (calculateCompetitiveThreat values)"
proof -
  obtain a :: nat where a: "parseInt (stripNonDigits (FormValues.askingPrice values)) = Num (real a)"
    using stripped_finite [OF assms(1)] by blast
  obtain r :: nat where r: "parseInt (stripNonDigits (FormValues.recurringRevenue values)) = Num (real r)"
    using stripped_finite [OF assms(2)] by blast
  have "0 \<le> real a * 5 + real r * 2" by simp
  then have "real a * 5 + real r * 2 = 0 \<or> 0 < real a * 5 + real r * 2" by linarith
  then show ?thesis
    by (simp add: calculateCompetitiveThreat_def Let_def a r inScoreRange_def Math_min_def jle_def)
qed

lemma growthPotential_finite:
  assumes "parseInt (stripNonDigits (FormValues.recurringRevenue values)) \<noteq> NaN"
  shows "isFinite (calculateGrowthPotential values)"
proof -
  obtain r :: nat where r: "parseInt (stripNonDigits (FormValues.recurringRevenue values)) = Num (real r)"
    using stripped_finite [OF assms(1)] by blast
  show ?thesis
    by (simp add: calculateGrowthPotential_def Let_def r)
qed

text \<open>
  The growth potential is not clamped by the code: on the form's initial values it is
  630000.
\<close>

lemma scores_initial:
  "riskScore (calculateMetrics initialValues) = Num 0"
  "marketPositionScore (calculateMetrics initialValues) = Num 10"
  "competitiveThreat (calculateMetrics initialValues) = Num 100"
  "growthPotential (calculateMetrics initialValues) = Num 630000"
  by (simp_all add: metrics_fields calculateRiskScore_def calculateMarketScore_def
        calculateCompetitiveThreat_def calculateGrowthPotential_def initialValues_def
        parse_digits_initial Let_def jsub_def jgt_def Math_min_def Math_max_def)

text \<open>
  Claim C6. When the asking price and the recurring revenue are numbers (a field with a
  digit in it; stripping leaves no sign, so they are not negative), the risk score,
  the market position score and the competitive threat lie between 0 and 100, and
  so does the growth potential once clamped.
\<close>

theorem scores_in_range:
  assumes "parseInt (stripNonDigits (FormValues.askingPrice values)) \<noteq> NaN"
    and "parseInt (stripNonDigits (FormValues.recurringRevenue values)) \<noteq> NaN"
  shows "inScoreRange (riskScore (calculateMetrics values)) \<and>
         inScoreRange (marketPositionScore (calculateMetrics values)) \<and>
         inScoreRange (competitiveThreat (calculateMetrics values)) \<and>
         inScoreRange (clampScore (growthPotential (calculateMetrics values)))"
  using riskScore_range [OF assms] marketScore_range [OF assms]
    competitiveThreat_range [OF assms] clampScore_range [OF growthPotential_finite [OF assms(2)]]
  by (simp add: metrics_fields)

theorem scores_in_range_witness:
  "parseInt (stripNonDigits (FormValues.askingPrice initialValues)) \<noteq> NaN \<and>
   parseInt (stripNonDigits (FormValues.recurringRevenue initialValues)) \<noteq> NaN \<and>
   inScoreRange (riskScore (calculateMetrics initialValues)) \<and>
   inScoreRange (marketPositionScore (calculateMetrics initialValues)) \<and>
   inScoreRange (competitiveThreat (calculateMetrics initialValues)) \<and>
   inScoreRange (clampScore (growthPotential (calculateMetrics initialValues)))"
proof -
  have a: "parseInt (stripNonDigits (FormValues.askingPrice initialValues)) \<noteq> NaN"
    by (simp add: initialValues_def parse_digits_initial)
  have r: "parseInt (stripNonDigits (FormValues.recurringRevenue initialValues)) \<noteq> NaN"
    by (simp add: initialValues_def parse_digits_initial)
  from a r scores_in_range [OF a r] show ?thesis by blast
qed

section \<open>Debt service\<close>

text \<open>
  The metrics amortise the bank loan and the seller note one by one and add the two
  payments (\<open>metrics_fields\<close>); the projection amortises the sum of the two principals
  in one call (\<open>calculateProjectedCashFlows_unfold\<close>). On the reals the two results
  are equal, the payment being linear in the principal. The program rounds after
  every operation, and the two computations do not round alike.
\<close>

text \<open>At the rate 1200 and the term 1 the monthly rate is 1 and the compound factor \<open>2^12\<close>.\<close>

lemma debt_service_1200_1:
  "calculateAnnualDebtService p (Num 1200) (Num 1) =
     dmul (ddiv (dmul p (Num 4096)) (Num 4095)) (Num 12)"
proof -
  have mr: "ddiv (Num 1200) (Num 1200) = Num 1"
    by (simp add: ddiv_def toDouble_eval [of 0] roundHalfEven_def Let_def power_int_minus)
  have np: "dmul (Num 1) (Num 12) = Num 12"
    by (simp add: dmul_def toDouble_eval [of 3] roundHalfEven_def Let_def power_int_minus)
  have base: "dadd (Num 1) (Num 1) = Num 2"
    by (simp add: dadd_def toDouble_eval [of 1] roundHalfEven_def Let_def power_int_minus)
  have pw: "dpow (Num 2) (Num 12) = Num 4096"
    by (simp add: dpow_def Math_pow_def isInteger_def toDouble_eval [of 12] roundHalfEven_def
          Let_def power_int_minus)
  have k: "dmul (Num 1) (Num 4096) = Num 4096"
    by (simp add: dmul_def toDouble_eval [of 12] roundHalfEven_def Let_def power_int_minus)
  have d: "dsub (Num 4096) (Num 1) = Num 4095"
    by (simp add: dsub_def jsub_def toDouble_eval [of 11] roundHalfEven_def Let_def
          power_int_minus)
  show ?thesis
    unfolding calculateAnnualDebtService_def Let_def mr np base pw k d ..
qed

lemma debt_service_850:
  "calculateAnnualDebtService (Num 850) (Num 1200) (Num 1) = Num (1402219664199605 / 2 ^ 37)"
proof -
  have x1: "dmul (Num 850) (Num 4096) = Num 3481600"
    by (simp add: dmul_def toDouble_eval [of 21] roundHalfEven_def Let_def power_int_minus)
  have x2: "ddiv (Num 3481600) (Num 4095) = Num (7478504875731227 / 2 ^ 43)"
    by (simp add: ddiv_def toDouble_eval [of 9] roundHalfEven_def Let_def power_int_minus)
  have x3: "dmul (Num (7478504875731227 / 2 ^ 43)) (Num 12) = Num (1402219664199605 / 2 ^ 37)"
    by (simp add: dmul_def toDouble_eval [of 13] roundHalfEven_def Let_def power_int_minus)
  show ?thesis unfolding debt_service_1200_1 x1 x2 x3 ..
qed

lemma debt_service_150:
  "calculateAnnualDebtService (Num 150) (Num 1200) (Num 1) = Num (1979604231811207 / 2 ^ 40)"
proof -
  have x1: "dmul (Num 150) (Num 4096) = Num 614400"
    by (simp add: dmul_def toDouble_eval [of 19] roundHalfEven_def Let_def power_int_minus)
  have x2: "ddiv (Num 614400) (Num 4095) = Num (5278944618163219 / 2 ^ 45)"
    by (simp add: ddiv_def toDouble_eval [of 7] roundHalfEven_def Let_def power_int_minus)
  have x3: "dmul (Num (5278944618163219 / 2 ^ 45)) (Num 12) = Num (1979604231811207 / 2 ^ 40)"
    by (simp add: dmul_def toDouble_eval [of 10] roundHalfEven_def Let_def power_int_minus)
  show ?thesis unfolding debt_service_1200_1 x1 x2 x3 ..
qed

lemma debt_service_1000:
  "calculateAnnualDebtService (Num 1000) (Num 1200) (Num 1) = Num (6598680772704023 / 2 ^ 39)"
proof -
  have x1: "dmul (Num 1000) (Num 4096) = Num 4096000"
    by (simp add: dmul_def toDouble_eval [of 21] roundHalfEven_def Let_def power_int_minus)
  have x2: "ddiv (Num 4096000) (Num 4095) = Num (8798241030272031 / 2 ^ 43)"
    by (simp add: ddiv_def toDouble_eval [of 9] roundHalfEven_def Let_def power_int_minus)
  have x3: "dmul (Num (8798241030272031 / 2 ^ 43)) (Num 12) = Num (6598680772704023 / 2 ^ 39)"
    by (simp add: dmul_def toDouble_eval [of 13] roundHalfEven_def Let_def power_int_minus)
  show ?thesis unfolding debt_service_1200_1 x1 x2 x3 ..
qed

lemma principal_850_150: "dadd (Num 850) (Num 150) = Num 1000"
  by (simp add: dadd_def toDouble_eval [of 9] roundHalfEven_def Let_def power_int_minus)

lemma payments_850_150:
  "dadd (Num (1402219664199605 / 2 ^ 37)) (Num (1979604231811207 / 2 ^ 40)) =
     Num (824835096588003 / 2 ^ 36)"
  by (simp add: dadd_def toDouble_eval [of 13] roundHalfEven_def Let_def power_int_minus)

text \<open>
  Claim C9, as stated. For every principal split, positive rate and positive term,
  amortizing the bank loan and the seller note separately and adding the two
  payments gives the same debt service as amortizing the combined principal in one
  call. It fails for the bank loan 850 and the seller note 150 (an asking price of
  1000 with nothing down and a note of 15 percent) at the rate 1200 and the term
  1: the sum of the two payments is 12002.930402930404 and the payment on the sum
  is 12002.930402930402, one unit in the last place below.
\<close>

theorem debt_service_split_differs_counterexample:
  "dadd (calculateAnnualDebtService (Num 850) (Num 1200) (Num 1))
        (calculateAnnualDebtService (Num 150) (Num 1200) (Num 1)) =
     Num (824835096588003 / 2 ^ 36) \<and>
   calculateAnnualDebtService (dadd (Num 850) (Num 150)) (Num 1200) (Num 1) =
     Num (6598680772704023 / 2 ^ 39) \<and>
   dadd (calculateAnnualDebtService (Num 850) (Num 1200) (Num 1))
        (calculateAnnualDebtService (Num 150) (Num 1200) (Num 1)) \<noteq>
   calculateAnnualDebtService (dadd (Num 850) (Num 150)) (Num 1200) (Num 1)"
  unfolding debt_service_850 debt_service_150 payments_850_150 principal_850_150
    debt_service_1000
  by simp

text \<open>
  The two computations agree up to rounding. With \<open>K\<close> and \<open>D\<close> the factor and the
  divisor that the rate and the term give, the payment on \<open>P\<close> is \<open>P * K / D * 12\<close>
  rounded three times, so it is off the exact payment by at most the fraction
  \<open>6 / 2^53\<close> of it.
\<close>

lemma payment_near:
  assumes "\<bar>p - q\<bar> \<le> e * \<bar>q\<bar>" and "0 \<le> e" and "e \<le> 1 / 2"
  shows "\<bar>toDouble (toDouble (toDouble (p * K) / D) * 12) - q * K / D * 12\<bar>
         \<le> (e + 6 / 2 ^ 53) * \<bar>q * K / D * 12\<bar>"
proof -
  have e1: "e \<le> 1" and e2: "e + 2 / 2 ^ 53 \<le> 1" and e3: "e + 2 / 2 ^ 53 + 2 / 2 ^ 53 \<le> 1"
    and p1: "0 \<le> e + 2 / 2 ^ 53" and p2: "0 \<le> e + 2 / 2 ^ 53 + 2 / 2 ^ 53"
    using assms(2) assms(3) by simp_all
  have "\<bar>p * K - q * K\<bar> \<le> e * \<bar>q * K\<bar>" using assms(1) by (rule near_mult)
  from toDouble_near [OF this assms(2) e1]
  have "\<bar>toDouble (p * K) - q * K\<bar> \<le> (e + 2 / 2 ^ 53) * \<bar>q * K\<bar>" .
  from near_mult [OF this, of "inverse D"]
  have "\<bar>toDouble (p * K) / D - q * K / D\<bar> \<le> (e + 2 / 2 ^ 53) * \<bar>q * K / D\<bar>"
    by (simp only: divide_inverse)
  from toDouble_near [OF this p1 e2]
  have "\<bar>toDouble (toDouble (p * K) / D) - q * K / D\<bar>
        \<le> (e + 2 / 2 ^ 53 + 2 / 2 ^ 53) * \<bar>q * K / D\<bar>" .
  from toDouble_near [OF near_mult [OF this, of 12] p2 e3]
  have "\<bar>toDouble (toDouble (toDouble (p * K) / D) * 12) - q * K / D * 12\<bar>
        \<le> (e + 2 / 2 ^ 53 + 2 / 2 ^ 53 + 2 / 2 ^ 53) * \<bar>q * K / D * 12\<bar>" .
  moreover have "e + 2 / 2 ^ 53 + 2 / 2 ^ 53 + 2 / 2 ^ 53 = e + 6 / 2 ^ 53" by simp
  ultimately show ?thesis by (simp only:)
qed

lemma Math_pow_ge:
  assumes "1 < b" and "1 \<le> e"
  shows "\<exists>p. Math_pow (Num b) (Num e) = Num p \<and> b \<le> p"
proof (cases "isInteger e")
  case True
  have fl: "1 \<le> \<lfloor>e\<rfloor>" using assms(2) by simp
  then obtain n where n: "\<lfloor>e\<rfloor> = int (Suc n)"
    by (metis Suc_pred' nat_0_le zero_less_nat_eq zero_less_one order_less_le_trans zero_le_one order_trans)
  have "b \<le> b ^ Suc n" using assms(1) self_le_power [of b "Suc n"] by simp
  then have "b \<le> b powi \<lfloor>e\<rfloor>" unfolding n by (simp only: power_int_of_nat)
  then show ?thesis using assms True by (simp add: Math_pow_def)
next
  case False
  have "b powr 1 \<le> b powr e" using assms by (intro powr_mono) simp_all
  then have "b \<le> b powr e" using assms(1) by simp
  then show ?thesis using assms False by (simp add: Math_pow_def)
qed

lemma debt_service_factors:
  assumes "1 \<le> rate" and "1 \<le> years"
  shows "\<exists>K D. \<forall>P. calculateAnnualDebtService (Num P) (Num rate) (Num years) =
                      Num (toDouble (toDouble (toDouble (P * K) / D) * 12))"
proof -
  define mr where "mr = toDouble (rate / 1200)"
  define np where "np = toDouble (years * 12)"
  define base where "base = toDouble (1 + mr)"
  have mrb: "1 / 2400 \<le> mr"
  proof -
    have "(0::real) < 1 / 1200" by simp
    moreover have "1 / 1200 \<le> rate / 1200" using assms(1) by simp
    ultimately have "1 / 1200 * (1 - 1 / 2 ^ 53) \<le> mr"
      unfolding mr_def using toDouble_between [of "1 / 1200" "rate / 1200" "rate / 1200"] by blast
    moreover have "(1 / 2400 :: real) \<le> 1 / 1200 * (1 - 1 / 2 ^ 53)" by simp
    ultimately show ?thesis by (rule order_trans [rotated])
  qed
  have npb: "1 \<le> np"
  proof -
    have "(0::real) < 12" by simp
    moreover have "12 \<le> years * 12" using assms(2) by simp
    ultimately have "12 * (1 - 1 / 2 ^ 53) \<le> np"
      unfolding np_def using toDouble_between [of 12 "years * 12" "years * 12"] by blast
    moreover have "(1 :: real) \<le> 12 * (1 - 1 / 2 ^ 53)" by simp
    ultimately show ?thesis by (rule order_trans [rotated])
  qed
  have baseb: "1 + 1 / 4800 \<le> base"
  proof -
    have "(0::real) < 1 + 1 / 2400" by simp
    moreover have "1 + 1 / 2400 \<le> 1 + mr" using mrb by simp
    ultimately have "(1 + 1 / 2400) * (1 - 1 / 2 ^ 53) \<le> base"
      unfolding base_def using toDouble_between [of "1 + 1 / 2400" "1 + mr" "1 + mr"] by blast
    moreover have "(1 + 1 / 4800 :: real) \<le> (1 + 1 / 2400) * (1 - 1 / 2 ^ 53)" by simp
    ultimately show ?thesis by (rule order_trans [rotated])
  qed
  have "1 < base" using baseb by simp
  from Math_pow_ge [OF this npb] obtain p
    where p: "Math_pow (Num base) (Num np) = Num p" and pb: "base \<le> p" by blast
  define pw where "pw = toDouble p"
  have pwb: "1 < pw"
  proof -
    have "(0::real) < 1 + 1 / 4800" by simp
    moreover have "1 + 1 / 4800 \<le> p" using baseb pb by simp
    ultimately have "(1 + 1 / 4800) * (1 - 1 / 2 ^ 53) \<le> pw"
      unfolding pw_def using toDouble_between [of "1 + 1 / 4800" p p] by blast
    moreover have "(1 :: real) < (1 + 1 / 4800) * (1 - 1 / 2 ^ 53)" by simp
    ultimately show ?thesis by (rule less_le_trans [rotated])
  qed
  define K where "K = toDouble (mr * pw)"
  define D where "D = toDouble (pw - 1)"
  have "0 < D" unfolding D_def using pwb by (intro toDouble_pos) simp
  then have Dnz: "D \<noteq> 0" by simp
  have mr: "ddiv (Num rate) (Num 1200) = Num mr" by (simp add: ddiv_def mr_def)
  have np: "dmul (Num years) (Num 12) = Num np" by (simp add: dmul_def np_def)
  have base: "dadd (Num 1) (Num mr) = Num base" by (simp add: dadd_def base_def)
  have pw: "dpow (Num base) (Num np) = Num pw" by (simp add: dpow_def p pw_def)
  have k: "dmul (Num mr) (Num pw) = Num K" by (simp add: dmul_def K_def)
  have d: "dsub (Num pw) (Num 1) = Num D" by (simp add: dsub_def jsub_def D_def)
  have "calculateAnnualDebtService (Num P) (Num rate) (Num years) =
        Num (toDouble (toDouble (toDouble (P * K) / D) * 12))" for P
    unfolding calculateAnnualDebtService_def Let_def mr np base pw k d
    using Dnz by (simp add: dmul_def ddiv_def)
  then show ?thesis by blast
qed

lemma error_absorbed:
  fixes ea :: real
  assumes "ea \<le> 6 / 2 ^ 53 * na" and "na \<le> ma + ea" and "0 \<le> na"
  shows "13 * na \<le> 15 * ma"
proof -
  have "ea \<le> 6 / 9007199254740992 * na" using assms(1) by simp
  with assms(2) assms(3) show ?thesis by linarith
qed

lemma error_sum:
  fixes ea :: real
  assumes "ea \<le> 6 / 2 ^ 53 * na" and "eb \<le> 6 / 2 ^ 53 * nb"
    and "ec \<le> 7 / 2 ^ 53 * (na + nb)" and "es \<le> (ma + mb) / 2 ^ 53"
    and "13 * na \<le> 15 * ma" and "13 * nb \<le> 15 * mb"
  shows "es + ea + eb + ec \<le> (ma + mb) / 2 ^ 49"
proof -
  define u :: real where "u = 1 / 2 ^ 53"
  have u: "0 \<le> u" by (simp add: u_def)
  have b: "ea \<le> u * (6 * na)" "eb \<le> u * (6 * nb)" "ec \<le> u * (7 * (na + nb))"
    "es \<le> u * (ma + mb)"
    using assms(1-4) by (simp_all add: u_def)
  have "es + ea + eb + ec \<le> u * (ma + mb) + u * (6 * na) + u * (6 * nb) + u * (7 * (na + nb))"
    using b by (intro add_mono)
  also have "\<dots> = u * ((ma + mb) + 13 * (na + nb))" by (simp add: algebra_simps)
  also have "\<dots> \<le> u * (16 * (ma + mb))"
    using u assms(5,6) by (intro mult_left_mono) simp_all
  also have "\<dots> = (ma + mb) / 2 ^ 49" by (simp add: u_def)
  finally show ?thesis .
qed

lemma split_near_combined:
  fixes K D :: real
  defines "A \<equiv> \<lambda>P. toDouble (toDouble (toDouble (P * K) / D) * 12)"
  shows "\<bar>toDouble (A a + A b) - A (toDouble (a + b))\<bar> \<le> (\<bar>A a\<bar> + \<bar>A b\<bar>) / 2 ^ 49"
proof -
  define g where "g = (\<lambda>q. q * K / D * 12)"
  define pa pb s c Ga Gb where "pa = A a" and "pb = A b" and "s = toDouble (A a + A b)"
    and "c = A (toDouble (a + b))" and "Ga = g a" and "Gb = g b"
  define ea eb ec es na nb ma mb where "ea = \<bar>pa - Ga\<bar>" and "eb = \<bar>pb - Gb\<bar>"
    and "ec = \<bar>c - (Ga + Gb)\<bar>" and "es = \<bar>s - (pa + pb)\<bar>"
    and "na = \<bar>Ga\<bar>" and "nb = \<bar>Gb\<bar>" and "ma = \<bar>pa\<bar>" and "mb = \<bar>pb\<bar>"
  have "\<bar>A a - g a\<bar> \<le> (0 + 6 / 2 ^ 53) * \<bar>g a\<bar>"
    unfolding A_def g_def by (rule payment_near) simp_all
  then have b1: "ea \<le> 6 / 2 ^ 53 * na"
    by (simp only: ea_def na_def pa_def Ga_def add_0)
  have "\<bar>A b - g b\<bar> \<le> (0 + 6 / 2 ^ 53) * \<bar>g b\<bar>"
    unfolding A_def g_def by (rule payment_near) simp_all
  then have b2: "eb \<le> 6 / 2 ^ 53 * nb"
    by (simp only: eb_def nb_def pb_def Gb_def add_0)
  have gs: "g (a + b) = Ga + Gb"
    by (simp add: g_def Ga_def Gb_def distrib_right add_divide_distrib)
  have "\<bar>toDouble (a + b) - (a + b)\<bar> \<le> 1 / 2 ^ 53 * \<bar>a + b\<bar>"
    using toDouble_error [of "a + b"] by simp
  then have "\<bar>A (toDouble (a + b)) - g (a + b)\<bar> \<le> (1 / 2 ^ 53 + 6 / 2 ^ 53) * \<bar>g (a + b)\<bar>"
    unfolding A_def g_def by (rule payment_near) simp_all
  moreover have "(1 / 2 ^ 53 + 6 / 2 ^ 53 :: real) = 7 / 2 ^ 53" by simp
  ultimately have "ec \<le> 7 / 2 ^ 53 * \<bar>Ga + Gb\<bar>"
    by (simp only: ec_def c_def gs)
  moreover have "7 / 2 ^ 53 * \<bar>Ga + Gb\<bar> \<le> 7 / 2 ^ 53 * (na + nb)"
    unfolding na_def nb_def by (intro mult_left_mono) simp_all
  ultimately have b3: "ec \<le> 7 / 2 ^ 53 * (na + nb)" by (rule order_trans)
  have "es \<le> \<bar>pa + pb\<bar> / 2 ^ 53"
    unfolding es_def s_def pa_def pb_def by (rule toDouble_error)
  moreover have "\<bar>pa + pb\<bar> / 2 ^ 53 \<le> (ma + mb) / 2 ^ 53"
    unfolding ma_def mb_def by (intro divide_right_mono) simp_all
  ultimately have b4: "es \<le> (ma + mb) / 2 ^ 53" by (rule order_trans)
  have t1: "\<bar>s - c\<bar> \<le> es + ea + eb + ec"
    unfolding es_def ea_def eb_def ec_def by linarith
  have t2: "na \<le> ma + ea" unfolding na_def ma_def ea_def by linarith
  have t3: "nb \<le> mb + eb" unfolding nb_def mb_def eb_def by linarith
  have p: "0 \<le> na" "0 \<le> nb" by (simp_all add: na_def nb_def)
  have "es + ea + eb + ec \<le> (ma + mb) / 2 ^ 49"
    using b1 b2 b3 b4 error_absorbed [OF b1 t2 p(1)] error_absorbed [OF b2 t3 p(2)]
    by (rule error_sum)
  with t1 have "\<bar>s - c\<bar> \<le> (ma + mb) / 2 ^ 49" by (rule order_trans)
  then show ?thesis by (simp only: ma_def mb_def pa_def pb_def s_def c_def)
qed

text \<open>
  Claim C9, amended. For a rate from 1 to 1200, a term from 1 to 50 years and two
  principals that are 0 or from 1/100 to \<open>10^15\<close> in magnitude, amortizing the two
  principals separately and adding the payments, and amortizing their sum in one
  call, both give a finite number, and the two numbers differ by at most the
  fraction \<open>2^-49\<close> of the sum of the magnitudes of the two payments. The bounds on the
  rate, the term and the principals keep every intermediate value of the program
  a normal double, for which the machine rounds as \<open>toDouble\<close> does.
\<close>

theorem debt_service_split_near_combined:
  assumes "1 \<le> rate" and "rate \<le> 1200" and "1 \<le> years" and "years \<le> 50"
    and "a = 0 \<or> 1 / 100 \<le> \<bar>a\<bar>" and "\<bar>a\<bar> \<le> 10 ^ 15"
    and "b = 0 \<or> 1 / 100 \<le> \<bar>b\<bar>" and "\<bar>b\<bar> \<le> 10 ^ 15"
  shows "\<exists>pa pb s c.
           calculateAnnualDebtService (Num a) (Num rate) (Num years) = Num pa \<and>
           calculateAnnualDebtService (Num b) (Num rate) (Num years) = Num pb \<and>
           dadd (Num pa) (Num pb) = Num s \<and>
           calculateAnnualDebtService (dadd (Num a) (Num b)) (Num rate) (Num years) = Num c \<and>
           \<bar>s - c\<bar> \<le> (\<bar>pa\<bar> + \<bar>pb\<bar>) / 2 ^ 49"
proof -
  from debt_service_factors [OF assms(1) assms(3)] obtain K D
    where f: "\<And>P. calculateAnnualDebtService (Num P) (Num rate) (Num years) =
                   Num (toDouble (toDouble (toDouble (P * K) / D) * 12))"
    by blast
  let ?A = "\<lambda>P. toDouble (toDouble (toDouble (P * K) / D) * 12)"
  have s: "dadd (Num (?A a)) (Num (?A b)) = Num (toDouble (?A a + ?A b))"
    by (simp add: dadd_def)
  have c: "calculateAnnualDebtService (dadd (Num a) (Num b)) (Num rate) (Num years) =
             Num (?A (toDouble (a + b)))"
    by (simp add: dadd_def f)
  have "\<bar>toDouble (?A a + ?A b) - ?A (toDouble (a + b))\<bar> \<le> (\<bar>?A a\<bar> + \<bar>?A b\<bar>) / 2 ^ 49"
    by (rule split_near_combined)
  with f [of a] f [of b] s c show ?thesis by blast
qed

theorem debt_service_split_near_combined_witness:
  "\<exists>pa pb s c.
     calculateAnnualDebtService (Num 2250000) (Num 10) (Num 10) = Num pa \<and>
     calculateAnnualDebtService (Num 125000) (Num 10) (Num 10) = Num pb \<and>
     dadd (Num pa) (Num pb) = Num s \<and>
     calculateAnnualDebtService (dadd (Num 2250000) (Num 125000)) (Num 10) (Num 10) = Num c \<and>
     \<bar>s - c\<bar> \<le> (\<bar>pa\<bar> + \<bar>pb\<bar>) / 2 ^ 49"
  using debt_service_split_near_combined [of 10 10 2250000 125000] by simp

section \<open>The internal rate of return\<close>

lemma downPaymentAmount_cases:
  "downPaymentAmount values = NaN \<or> isFinite (downPaymentAmount values)"
proof -
  have a: "parseInt (stripNonDigits (FormValues.askingPrice values)) = NaN \<or>
           isFinite (parseInt (stripNonDigits (FormValues.askingPrice values)))"
    using parseInt_stripNonDigits [of "FormValues.askingPrice values"] by auto
  have b: "parseInt (FormValues.downPayment values) = NaN \<or>
           isFinite (parseInt (FormValues.downPayment values))"
    using parseInt_cases [of "FormValues.downPayment values"] by auto
  show ?thesis
    unfolding downPaymentAmount_def by (rule percent_NaN_or_finite [OF a b])
qed

lemma zero_percent_down: 
  assumes "parseInt (FormValues.downPayment values) = Num 0"
  shows "downPaymentAmount values = NaN \<or> downPaymentAmount values = Num 0"
  using parseInt_stripNonDigits [of "FormValues.askingPrice values"] assms
  by (auto simp: downPaymentAmount_def)

lemma internalRateOfReturn_eq:
  "internalRateOfReturn (calculateMetrics values) =
     jmul (jdiv (jdiv (jsum (drop 1 (projectedCashFlows (calculateMetrics values)))) (Num 4))
                (Math_abs (jneg (downPaymentAmount values))))
          (Num 100)"
  by (simp add: metrics_fields calculateIRR_def Let_def first_cash_flow foldl_jadd
        jadd_zero_left length_calculateProjectedCashFlows)

lemma internalRateOfReturn_finite:
  assumes "isFinite (internalRateOfReturn (calculateMetrics values))"
  shows "isFinite (downPaymentAmount values) \<and> downPaymentAmount values \<noteq> Num 0"
proof -
  let ?avg = "jdiv (jsum (drop 1 (projectedCashFlows (calculateMetrics values)))) (Num 4)"
  from assms have fin: "isFinite (jdiv ?avg (Math_abs (downPaymentAmount values)))"
    unfolding internalRateOfReturn_eq Math_abs_jneg by (rule jmul_hundred_finite)
  from downPaymentAmount_cases [of "values"] show ?thesis
  proof
    assume "downPaymentAmount values = NaN"
    with fin show ?thesis by (simp add: NaN_right)
  next
    assume f: "isFinite (downPaymentAmount values)"
    have "downPaymentAmount values \<noteq> Num 0"
    proof
      assume "downPaymentAmount values = Num 0"
      with fin show False by (simp add: jdiv_zero_not_finite)
    qed
    with f show ?thesis by simp
  qed
qed

lemma internalRateOfReturn_initial:
  "internalRateOfReturn (calculateMetrics initialValues) = Num (63341 / 1000)"
  by (simp add: metrics_fields calculateIRR_def cash_flows_initial Let_def at_index_def)

text \<open>
  Claim C10. The rate of return is the mean of the later cash flows divided, with no
  guard, by the absolute value of the year-0 cash flow, which is minus the down
  payment. With a down-payment percentage of 0 the result is an infinity or
  \<open>NaN\<close>; it is a finite number only if the down payment is a number other than 0.
\<close>

theorem internalRateOfReturn_needs_downPayment:
  "internalRateOfReturn (calculateMetrics values) =
     jmul (jdiv (jdiv (jsum (drop 1 (projectedCashFlows (calculateMetrics values)))) (Num 4))
                (Math_abs (jneg (downPaymentAmount values))))
          (Num 100) \<and>
   (parseInt (FormValues.downPayment values) = Num 0 \<longrightarrow>
      \<not> isFinite (internalRateOfReturn (calculateMetrics values))) \<and>
   (isFinite (internalRateOfReturn (calculateMetrics values)) \<longrightarrow>
      isFinite (downPaymentAmount values) \<and> downPaymentAmount values \<noteq> Num 0)"
proof (intro conjI impI)
  show "internalRateOfReturn (calculateMetrics values) =
     jmul (jdiv (jdiv (jsum (drop 1 (projectedCashFlows (calculateMetrics values)))) (Num 4))
                (Math_abs (jneg (downPaymentAmount values))))
          (Num 100)"
    by (rule internalRateOfReturn_eq)
next
  assume z: "parseInt (FormValues.downPayment values) = Num 0"
  show "\<not> isFinite (internalRateOfReturn (calculateMetrics values))"
  proof
    assume "isFinite (internalRateOfReturn (calculateMetrics values))"
    then have "isFinite (downPaymentAmount values) \<and> downPaymentAmount values \<noteq> Num 0"
      by (rule internalRateOfReturn_finite)
    with zero_percent_down [OF z] show False by auto
  qed
next
  assume f: "isFinite (internalRateOfReturn (calculateMetrics values))"
  from internalRateOfReturn_finite [OF f]
  show "isFinite (downPaymentAmount values)" and "downPaymentAmount values \<noteq> Num 0"
    by simp_all
qed

theorem internalRateOfReturn_needs_downPayment_witness:
  "isFinite (internalRateOfReturn (calculateMetrics initialValues)) \<and>
   isFinite (downPaymentAmount initialValues) \<and>
   downPaymentAmount initialValues \<noteq> Num 0 \<and>
   parseInt (FormValues.downPayment (initialValues\<lparr>FormValues.downPayment := ''0''\<rparr>)) = Num 0 \<and>
   \<not> isFinite (internalRateOfReturn
        (calculateMetrics (initialValues\<lparr>FormValues.downPayment := ''0''\<rparr>)))"
proof -
  have f: "isFinite (internalRateOfReturn (calculateMetrics initialValues))"
    by (simp add: internalRateOfReturn_initial)
  have z: "parseInt (FormValues.downPayment (initialValues\<lparr>FormValues.downPayment := ''0''\<rparr>)) = Num 0"
    by (simp add: parse_initial)
  from f z internalRateOfReturn_needs_downPayment [of initialValues]
    internalRateOfReturn_needs_downPayment [of "initialValues\<lparr>FormValues.downPayment := ''0''\<rparr>"]
  show ?thesis by blast
qed

section \<open>The industry findings\<close>

lemma analyzeDeal_findings:
  "strengths (analyzeDeal fmt metrics) =
     strengths (analyzeIndustry metrics (findingsBeforeIndustry fmt metrics))"
  "weaknesses (analyzeDeal fmt metrics) =
     weaknesses (analyzeIndustry metrics (findingsBeforeIndustry fmt metrics))"
  "opportunities (analyzeDeal fmt metrics) =
     opportunities (analyzeIndustry metrics (findingsBeforeIndustry fmt metrics))"
  "threats (analyzeDeal fmt metrics) =
     threats (analyzeIndustry metrics (findingsBeforeIndustry fmt metrics))"
  by (simp_all add: analyzeDeal_def Let_def findingsBeforeIndustry_def)

lemma blocks_ignore_industry:
  "analyzeEbitdaMultiple (metrics\<lparr>CalculationResults.industry := ind\<rparr>) f =
     analyzeEbitdaMultiple metrics f"
  "analyzeDebtCoverage fmt (metrics\<lparr>CalculationResults.industry := ind\<rparr>) f =
     analyzeDebtCoverage fmt metrics f"
  "analyzeRecurringRevenue fmt (metrics\<lparr>CalculationResults.industry := ind\<rparr>) f =
     analyzeRecurringRevenue fmt metrics f"
  "analyzeCustomerConcentration fmt (metrics\<lparr>CalculationResults.industry := ind\<rparr>) f =
     analyzeCustomerConcentration fmt metrics f"
  "analyzeBusinessMaturity fmt (metrics\<lparr>CalculationResults.industry := ind\<rparr>) f =
     analyzeBusinessMaturity fmt metrics f"
  by (simp_all add: analyzeBusinessMaturity_def analyzeCustomerConcentration_def
        analyzeRecurringRevenue_def analyzeDebtCoverage_def analyzeEbitdaMultiple_def
        totalRevenue_def)

lemma findingsBeforeIndustry_industry:
  "findingsBeforeIndustry fmt (metrics\<lparr>CalculationResults.industry := ind\<rparr>) =
     findingsBeforeIndustry fmt metrics"
  by (simp only: findingsBeforeIndustry_def blocks_ignore_industry)

lemma services_findings_general:
  assumes "CalculationResults.industry metrics = Some ''services''"
    and "ind \<noteq> Some ''services''"
  shows "strengths (analyzeDeal fmt metrics) =
           strengths (analyzeDeal fmt (metrics\<lparr>CalculationResults.industry := ind\<rparr>)) \<and>
         weaknesses (analyzeDeal fmt metrics) =
           weaknesses (analyzeDeal fmt (metrics\<lparr>CalculationResults.industry := ind\<rparr>)) @
           [''Seasonal revenue fluctuations''] \<and>
         opportunities (analyzeDeal fmt metrics) =
           opportunities (analyzeDeal fmt (metrics\<lparr>CalculationResults.industry := ind\<rparr>)) @
           [''Growing demand for HVAC services'', ''Energy efficiency upgrade opportunities''] \<and>
         threats (analyzeDeal fmt metrics) =
           threats (analyzeDeal fmt (metrics\<lparr>CalculationResults.industry := ind\<rparr>)) @
           [''Labor market challenges'', ''Equipment supply chain risks'']"
  using assms
  by (simp add: analyzeDeal_findings findingsBeforeIndustry_industry analyzeIndustry_def
        pushStrength_def pushWeakness_def pushOpportunity_def pushThreat_def)

lemma services_finding_count:
  assumes "CalculationResults.industry metrics = Some ''services''"
    and "ind \<noteq> Some ''services''"
  shows "findingCount (analyzeDeal fmt metrics) =
           findingCount (analyzeDeal fmt (metrics\<lparr>CalculationResults.industry := ind\<rparr>)) + 5"
  using services_findings_general [OF assms, of fmt] by (simp add: findingCount_def)

lemma industry_initial: "CalculationResults.industry (calculateMetrics initialValues) = Some ''services''"
  by (simp add: calculateMetrics_def Let_def initialValues_def)

text \<open>
  Claim C2, as stated: for every input with industry "services" the evaluator appends
  exactly 4 additional findings. On the form's initial values, whose industry is
  "services", the analysis has 5 findings more than with the industry "other", not 4.
\<close>

theorem services_four_findings_counterexample:
  "CalculationResults.industry (calculateMetrics initialValues) = Some ''services'' \<and>
   findingCount (analyzeDeal decimalFormat (calculateMetrics initialValues)) \<noteq>
   findingCount (analyzeDeal decimalFormat
     ((calculateMetrics initialValues)\<lparr>CalculationResults.industry := Some ''other''\<rparr>)) + 4"
proof -
  have "Some ''other'' \<noteq> Some ''services''" by simp
  from services_finding_count [OF industry_initial this, of decimalFormat] industry_initial
  show ?thesis by simp
qed

text \<open>
  Claim C2, amended. For every metrics record with industry "services" and every other
  industry value, the analysis has the same strengths as with the other industry,
  and its weaknesses, opportunities and threats are those of the other industry
  followed by one fixed weakness, two fixed opportunities and two fixed threats:
  exactly 5 additional findings, whatever the other fields.
\<close>

theorem services_five_findings:
  assumes "CalculationResults.industry metrics = Some ''services''"
    and "ind \<noteq> Some ''services''"
  shows "strengths (analyzeDeal fmt metrics) =
           strengths (analyzeDeal fmt (metrics\<lparr>CalculationResults.industry := ind\<rparr>)) \<and>
         weaknesses (analyzeDeal fmt metrics) =
           weaknesses (analyzeDeal fmt (metrics\<lparr>CalculationResults.industry := ind\<rparr>)) @
           [''Seasonal revenue fluctuations''] \<and>
         opportunities (analyzeDeal fmt metrics) =
           opportunities (analyzeDeal fmt (metrics\<lparr>CalculationResults.industry := ind\<rparr>)) @
           [''Growing demand for HVAC services'', ''Energy efficiency upgrade opportunities''] \<and>
         threats (analyzeDeal fmt metrics) =
           threats (analyzeDeal fmt (metrics\<lparr>CalculationResults.industry := ind\<rparr>)) @
           [''Labor market challenges'', ''Equipment supply chain risks''] \<and>
         findingCount (analyzeDeal fmt metrics) =
           findingCount (analyzeDeal fmt (metrics\<lparr>CalculationResults.industry := ind\<rparr>)) + 5"
  using services_findings_general [OF assms, of fmt] services_finding_count [OF assms, of fmt]
  by blast

theorem services_five_findings_witness:
  "CalculationResults.industry (calculateMetrics initialValues) = Some ''services'' \<and>
   Some ''other'' \<noteq> Some ''services'' \<and>
   weaknesses (analyzeDeal decimalFormat (calculateMetrics initialValues)) =
     weaknesses (analyzeDeal decimalFormat
       ((calculateMetrics initialValues)\<lparr>CalculationResults.industry := Some ''other''\<rparr>)) @
     [''Seasonal revenue fluctuations''] \<and>
   findingCount (analyzeDeal decimalFormat (calculateMetrics initialValues)) =
     findingCount (analyzeDeal decimalFormat
       ((calculateMetrics initialValues)\<lparr>CalculationResults.industry := Some ''other''\<rparr>)) + 5"
proof -
  have o: "Some ''other'' \<noteq> Some ''services''" by simp
  from o industry_initial services_five_findings [OF industry_initial o, of decimalFormat]
  show ?thesis by blast
qed

section \<open>The form's initial values, end to end\<close>

text \<open>
  The analysis of the metrics of the form's initial values, with the decimal number
  format: a debt coverage of about 1.19, a score of 57, the recommendation Neutral.
\<close>

lemma natToString_digit: "n < 10 \<Longrightarrow> natToString n = [digitChar n]"
  by (subst natToString.simps) simp

lemma natToString_step:
  "10 \<le> n \<Longrightarrow> natToString n = natToString (n div 10) @ [digitChar (n mod 10)]"
  by (subst natToString.simps) simp

lemma natToString_examples:
  "natToString 119 = ''119''" "natToString 30 = ''30''" "natToString 15 = ''15''"
  by (simp_all add: natToString_digit natToString_step digitChar_def)

lemma strip_initial:
  "stripNonDigits ''3,000,000'' = ''3000000''"
  "stripNonDigits ''900,000'' = ''900000''"
  "stripNonDigits ''300,000'' = ''300000''"
  by (simp_all add: stripNonDigits_def isRadixDigit_def digitValue_def)

lemma parse_stripped_initial:
  "parseInt ''3000000'' = Num 3000000"
  "parseInt ''900000'' = Num 900000"
  "parseInt ''300000'' = Num 300000"
  by (simp_all add: parseInt_def isRadixDigit_def digitValue_def isWhiteSpace_def mathInt_def Let_def)

lemma metrics_ratios:
  "ebitdaMultiple (calculateMetrics values) =
     jdiv (parseInt (stripNonDigits (FormValues.askingPrice values)))
          (parseInt (stripNonDigits (FormValues.ebitda values)))"
  "debtServiceCoverageRatio (calculateMetrics values) =
     jdiv (parseInt (stripNonDigits (FormValues.ebitda values))) (totalDebtService (calculateMetrics values))"
  "CalculationResults.revenue (calculateMetrics values) = Some (FormValues.revenue values)"
  "CalculationResults.recurringRevenue (calculateMetrics values) = Some (FormValues.recurringRevenue values)"
  "CalculationResults.topCustomerRevenue (calculateMetrics values) = Some (FormValues.topCustomerRevenue values)"
  "CalculationResults.yearsInBusiness (calculateMetrics values) = Some (FormValues.yearsInBusiness values)"
  "CalculationResults.industry (calculateMetrics values) = Some (FormValues.industry values)"
  by (simp_all add: calculateMetrics_def Let_def)

lemma totalDebtService_initial:
  "\<exists>s. totalDebtService (calculateMetrics initialValues) = Num s \<and>
       753259 / 2 < s \<and> s < 3766297 / 10"
proof -
  obtain s1 where s1: "calculateAnnualDebtService (Num 2250000) (Num 10) (Num 10) = Num s1"
    and lo1: "158580884 / 10 ^ 9 * 2250000 \<le> s1" and hi1: "s1 \<le> 1585808845 / 10 ^ 10 * 2250000"
    using debt_service_10_10 [of 2250000] by auto
  obtain s2 where s2: "calculateAnnualDebtService (Num 125000) (Num 10) (Num 10) = Num s2"
    and lo2: "158580884 / 10 ^ 9 * 125000 \<le> s2" and hi2: "s2 \<le> 1585808845 / 10 ^ 10 * 125000"
    using debt_service_10_10 [of 125000] by auto
  define s where "s = toDouble (s1 + s2)"
  have "37662955 / 100 \<le> s \<and> s \<le> 37662965 / 100"
    unfolding s_def
  proof (rule toDouble_bounds)
    show "(0::real) < 37662959 / 100" by simp
    show "37662959 / 100 \<le> s1 + s2" using lo1 lo2 by simp
    show "s1 + s2 \<le> 37662961 / 100" using hi1 hi2 by simp
    show "37662955 / 100 \<le> 37662959 / 100 * (1 - 1 / 2 ^ 53 :: real)" by simp
    show "37662961 / 100 * (1 + 1 / 2 ^ 53) \<le> (37662965 / 100 :: real)" by simp
  qed
  then have b: "753259 / 2 < s" "s < 3766297 / 10" by simp_all
  have "totalDebtService (calculateMetrics initialValues) = Num s"
    by (simp add: metrics_fields bankLoanAmount_def sellerNoteAmount_def downPaymentAmount_def
          initialValues_def parse_digits_initial parse_initial jsub_def s1 s2 dadd_def s_def)
  with b show ?thesis by blast
qed

lemma coverage_initial:
  "\<exists>c. debtServiceCoverageRatio (calculateMetrics initialValues) = Num c \<and>
       119 / 100 < c \<and> c < 1195 / 1000"
proof -
  obtain s where s: "totalDebtService (calculateMetrics initialValues) = Num s"
    and lo: "753259 / 2 < s" and hi: "s < 3766297 / 10"
    using totalDebtService_initial by blast
  have c: "debtServiceCoverageRatio (calculateMetrics initialValues) = Num (450000 / s)"
    unfolding metrics_ratios(2) s
    using lo by (simp add: initialValues_def parse_digits_initial)
  have "119 / 100 < 450000 / s" using lo hi by (simp add: pos_less_divide_eq)
  moreover have "450000 / s < 1195 / 1000" using lo hi by (simp add: pos_divide_less_eq)
  ultimately show ?thesis using c by blast
qed

lemma analyzeDeal_initialValues:
  "analyzeDeal decimalFormat (calculateMetrics initialValues) =
     \<lparr> strengths = [''High recurring revenue (30%)'', ''Well-diversified customer base'',
                    ''Established business (15 years operating)''],
       weaknesses = [''Technology systems could be modernized'',
                     ''Marketing strategy needs enhancement'',
                     ''Tight debt coverage (1.19x DSCR)'', ''Seasonal revenue fluctuations''],
       opportunities = [''Growing demand for HVAC services'',
                        ''Energy efficiency upgrade opportunities''],
       threats = [''Labor market challenges'', ''Equipment supply chain risks''],
       recommendation = Neutral, color = ''text-yellow-500'' \<rparr>"
proof -
  let ?m = "calculateMetrics initialValues"
  let ?f0 = "\<lparr> strengths = [], weaknesses = [], opportunities = [], threats = [] \<rparr>"
  obtain c where c: "debtServiceCoverageRatio ?m = Num c" and lo: "119 / 100 < c" and hi: "c < 1195 / 1000"
    using coverage_initial by blast
  have fl: "\<lfloor>c * 100 + 1 / 2\<rfloor> = 119" using lo hi by (simp add: floor_eq_iff)
  have fixed: "decimalToFixed 2 (Num c) = ''1.19''"
    using lo by (simp add: decimalToFixed_def Let_def fl natToString_examples abs_if)
  have m: "ebitdaMultiple ?m = Num (50 / 9)"
    by (simp add: metrics_ratios initialValues_def parse_digits_initial)
  have b1: "analyzeEbitdaMultiple ?m ?f0 = ?f0"
    by (simp add: analyzeEbitdaMultiple_def m jle_def jge_def)
  have b2: "analyzeDebtCoverage decimalFormat ?m f =
              pushWeakness ''Tight debt coverage (1.19x DSCR)'' f" for f
    using lo hi by (simp add: analyzeDebtCoverage_def c jle_def jge_def decimalFormat_def fixed)
  have b3: "analyzeRecurringRevenue decimalFormat ?m f =
              pushStrength ''High recurring revenue (30%)'' f" for f
    by (simp add: analyzeRecurringRevenue_def totalRevenue_def metrics_ratios initialValues_def
          orElse_def strip_initial parse_stripped_initial
          Let_def jge_def jle_def decimalFormat_def decimalToFixed_def natToString_examples)
  have b4: "analyzeCustomerConcentration decimalFormat ?m f =
              pushStrength ''Well-diversified customer base'' f" for f
    by (simp add: analyzeCustomerConcentration_def totalRevenue_def metrics_ratios initialValues_def
          orElse_def strip_initial parse_stripped_initial
          Let_def jgt_def)
  have b5: "analyzeBusinessMaturity decimalFormat ?m f =
              pushStrength ''Established business (15 years operating)'' f" for f
    by (simp add: analyzeBusinessMaturity_def metrics_ratios initialValues_def orElse_def
          parse_initial Let_def jge_def jle_def decimalFormat_def decimalToString_def
          natToString_examples)
  have b6: "analyzeIndustry ?m f =
              pushWeakness ''Seasonal revenue fluctuations''
               (pushThreat ''Equipment supply chain risks''
                 (pushThreat ''Labor market challenges''
                   (pushOpportunity ''Energy efficiency upgrade opportunities''
                     (pushOpportunity ''Growing demand for HVAC services'' f))))" for f
    by (simp add: analyzeIndustry_def metrics_ratios initialValues_def)
  have sc: "calculateDealScore ?m s w = min 100 (max 0 (60 + int s * 3 - int w * 3))" for s w
    using lo hi by (simp add: calculateDealScore_def Let_def c m jge_def jle_def)
  show ?thesis
    unfolding analyzeDeal_def Let_def b1 b2 b3 b4 b5 b6
    by (simp add: addAreasOfImprovement_def pushStrength_def pushWeakness_def pushOpportunity_def
          pushThreat_def sc)
qed

end
